theory Spec2Isabelle
  imports Complex_Main "HOL-Library.AList"
begin

section \<open>Action creators (src/redux/action-creators.js)\<close>

text \<open>
  Every action creator returns an object with the two fields \<open>type\<close> and
  \<open>payload\<close>. The payload is the JavaScript \<open>arguments\<close> object of the call,
  an array-like sequence of the values passed; it is modelled as the list of these
  values, whatever their type.
\<close>

record 'a action =
  type :: string
  payload :: "'a list"

definition initializeState :: "'a list \<Rightarrow> 'a action" where
  "initializeState arguments = \<lparr>type = ''INITIALIZE_STATE'', payload = arguments\<rparr>"

definition removeState :: "'a list \<Rightarrow> 'a action" where
  "removeState arguments = \<lparr>type = ''REMOVE_STATE'', payload = arguments\<rparr>"

definition setServerData :: "'a list \<Rightarrow> 'a action" where
  "setServerData arguments = \<lparr>type = ''SET_SERVER_DATA'', payload = arguments\<rparr>"

definition setPendingOp :: "'a list \<Rightarrow> 'a action" where
  "setPendingOp arguments = \<lparr>type = ''SET_PENDING_OP'', payload = arguments\<rparr>"

definition pushPendingState :: "'a list \<Rightarrow> 'a action" where
  "pushPendingState arguments = \<lparr>type = ''PUSH_PENDING_STATE'', payload = arguments\<rparr>"

definition popPendingState :: "'a list \<Rightarrow> 'a action" where
  "popPendingState arguments = \<lparr>type = ''POP_PENDING_STATE'', payload = arguments\<rparr>"

definition mergeFirstPendingState :: "'a list \<Rightarrow> 'a action" where
  "mergeFirstPendingState arguments =
     \<lparr>type = ''MERGE_FIRST_PENDING_STATE'', payload = arguments\<rparr>"

definition commitServerChanges :: "'a list \<Rightarrow> 'a action" where
  "commitServerChanges arguments =
     \<lparr>type = ''COMMIT_SERVER_CHANGES'', payload = arguments\<rparr>"

definition enqueueTask :: "'a list \<Rightarrow> 'a action" where
  "enqueueTask arguments = \<lparr>type = ''ENQUEUE_TASK'', payload = arguments\<rparr>"

text \<open>The source's \<open>_clearAllState\<close>; an Isabelle name cannot start with an underscore.\<close>

definition clearAllState :: "'a list \<Rightarrow> 'a action" where
  "clearAllState arguments = \<lparr>type = ''CLEAR_ALL_STATE'', payload = arguments\<rparr>"

section \<open>The current-user cache and its persistence (src/ParseUser.js)\<close>

subsection \<open>JavaScript values\<close>

text \<open>
  A JavaScript value as far as this module looks at it. An object is the list of its own
  properties in insertion order; reading a property that is missing gives
  \<open>undefined\<close>. Numbers are modelled by rationals: the module only tests them for
  truthiness and strict equality.
\<close>

datatype jsval =
    JUndefined
  | JNull
  | JBool bool
  | JNum rat
  | JStr string
  | JArr "jsval list"
  | JObj "(string \<times> jsval) list"

type_synonym jobject = "(string \<times> jsval) list"

definition property :: "jobject \<Rightarrow> string \<Rightarrow> jsval" where
  "property obj k = (case map_of obj k of None \<Rightarrow> JUndefined | Some v \<Rightarrow> v)"

definition hasOwnProperty :: "jobject \<Rightarrow> string \<Rightarrow> bool" where
  "hasOwnProperty obj k = (map_of obj k \<noteq> None)"

text \<open>The conversion to a boolean that \<open>if (v)\<close> and \<open>!v\<close> apply.\<close>

fun truthy :: "jsval \<Rightarrow> bool" where
  "truthy JUndefined = False"
| "truthy JNull = False"
| "truthy (JBool b) = b"
| "truthy (JNum n) = (n \<noteq> 0)"
| "truthy (JStr s) = (s \<noteq> [])"
| "truthy (JArr xs) = True"
| "truthy (JObj kvs) = True"

fun is_reference :: "jsval \<Rightarrow> bool" where
  "is_reference (JArr xs) = True"
| "is_reference (JObj kvs) = True"
| "is_reference v = False"

text \<open>
  The operator \<open>!==\<close> on two property values of one freshly parsed object: primitives
  are compared by value, objects and arrays by identity, and two properties of a parsed
  text never hold the same object.
\<close>

definition strict_neq :: "jsval \<Rightarrow> jsval \<Rightarrow> bool" where
  "strict_neq a b = (if is_reference a \<or> is_reference b then True else a \<noteq> b)"

text \<open>
  What \<open>JSON.parse\<close> returns, by the kind of value: \<open>null\<close>, a primitive (boolean,
  number or string), or a value of type object (a plain object, or an array with its
  elements as properties) given by its own properties.
\<close>

datatype parsed = ParsedNull | ParsedPrimitive | ParsedObject jobject

datatype error =
    Error string
  | SyntaxError
  | TypeError
  | ParseError string string
  | Failure string

text \<open>
  What a call that returns a promise has come to at the moment of observation: the
  promise is still pending, resolved with a value or rejected, or an exception has been
  raised. \<open>Raised x\<close> stands for an exception that left the call in which it arose:
  a callback of \<open>then\<close> that raises is not caught by ParsePromise and its exception
  is not turned into a rejection, so the promise that \<open>then\<close> made never settles and
  nothing chained on it runs. For a call on a collaborator, \<open>Raised x\<close> is the call
  itself raising \<open>x\<close> instead of returning a promise.
\<close>

datatype 'a promise = Pending | Resolved 'a | Rejected error | Raised error

fun returned :: "'a promise \<Rightarrow> bool" where
  "returned (Raised x) = False"
| "returned p = True"

text \<open>
  \<open>promise.then(callback)\<close> with a callback for the resolved case only: the callback
  runs, on the state of that moment, only if the promise is resolved; a rejection is
  handed on.
\<close>

definition promise_then ::
  "'a promise \<Rightarrow> ('a \<Rightarrow> 's \<Rightarrow> 's \<times> 'b promise) \<Rightarrow> 's \<Rightarrow> 's \<times> 'b promise" where
  "promise_then p callback s =
     (case p of
        Pending \<Rightarrow> (s, Pending)
      | Rejected x \<Rightarrow> (s, Rejected x)
      | Raised x \<Rightarrow> (s, Raised x)
      | Resolved v \<Rightarrow> callback v s)"

subsection \<open>State, collaborators and trace\<close>

text \<open>
  Objects are JavaScript references; a reference is a number, and \<open>nextRef\<close> is the
  next one that \<open>new ParseUser()\<close> or \<open>ParseObject.fromJSON\<close> hands out. A
  \<open>uref\<close> refers to an instance of ParseUser, as the parameters that the source types
  \<open>ParseUser\<close> do. What \<open>ParseObject.fromJSON\<close> builds, and so what the cache holds,
  is an instance of ParseUser or an object of another class, which has none of the
  methods that ParseUser adds.
\<close>

type_synonym uref = nat

datatype objref = UserObject uref | OtherObject nat

text \<open>\<open>Actions.set(user)\<close> of the user action creators.\<close>

datatype user_action = Actions_set "objref option"

text \<open>
  The calls this module makes on its collaborators, in the order it makes them.
  \<open>Dispatch a c\<close> is \<open>Store.dispatch(a)\<close>, made while the in-memory cache
  holds \<open>c\<close>. The calls into the store, the network and the entity layer
  (\<open>fromJSON\<close>, the constructor, \<open>save\<close>, \<open>_migrateId\<close>,
  \<open>ObjectState.setPendingOp\<close>, \<open>_finishFetch\<close>, \<open>_setExisted\<close>) are recorded with
  their arguments. The methods \<open>_cleanupAuthData\<close>, \<open>_synchronizeAllAuthData\<close> and
  \<open>_logOutWithAll\<close> of a user read the current user through \<open>ParseUser.current\<close>
  (a cache hit wherever the controller calls them) and otherwise act on the authData of
  the object and on the authentication providers; they are recorded as calls.
\<close>

datatype event =
    Dispatch user_action "objref option"
  | StoreRead string
  | StoreWrite string string
  | StoreRemove string
  | Request string string jobject jobject
  | FromJSON objref jobject
  | NewUser uref
  | Save uref "jobject option" jobject
  | MigrateId uref jsval
  | SetPendingOp uref string jsval
  | FinishFetch uref jobject
  | SetExisted uref bool
  | CleanupAuthData uref
  | SynchronizeAllAuthData uref
  | LogOutWithAll uref

text \<open>
  The module variables \<open>_currentUserCache\<close> (\<open>null\<close> is \<open>None\<close>),
  \<open>currentUserCacheMatchesDisk\<close> and \<open>canUseCurrentUser\<close>, the contents of the
  persistent store, and the trace.
\<close>

record state =
  currentUserCache :: "objref option"
  currentUserCacheMatchesDisk :: bool
  canUseCurrentUser :: bool
  disk :: "string \<rightharpoonup> string"
  nextRef :: nat
  trace :: "event list"

text \<open>
  What the collaborators answer: the capability flag and path scheme of \<open>Storage\<close>,
  \<open>JSON.parse\<close> and \<open>JSON.stringify\<close>, the getters of the entity layer as they
  answer when the module asks (the \<open>id\<close> of an object is a string or
  \<open>undefined\<close>), the class names, other than \<open>_User\<close>, under which a subclass of
  ParseUser has been registered with \<open>ParseObject.registerSubclass\<close>,
  \<open>isRevocableSession\<close>, and for every asynchronous call (the three store operations,
  the network request and the \<open>save\<close> of ParseObject) what it has come to when the
  state is observed.
\<close>

record env =
  Storage_async :: bool
  Storage_generatePath :: "string \<Rightarrow> string"
  JSON_parse :: "string \<Rightarrow> error + parsed"
  JSON_stringify :: "jobject \<Rightarrow> string"
  ParseObject_toJSON :: "uref \<Rightarrow> jobject"
  ParseObject_get :: "uref \<Rightarrow> string \<Rightarrow> jsval"
  ParseObject_id :: "objref \<Rightarrow> string option"
  registered_user_class :: "jsval \<Rightarrow> bool"
  isRevocableSession :: "jsval \<Rightarrow> bool"
  getItemAsync_outcome :: "unit promise"
  setItemAsync_outcome :: "unit promise"
  removeItemAsync_outcome :: "unit promise"
  request_outcome :: "jobject promise"
  save_outcome :: "unit promise"

definition CURRENT_USER_KEY :: string where
  "CURRENT_USER_KEY = ''currentUser''"

text \<open>The state when the module has been loaded: \<open>canUseCurrentUser = !IS_NODE\<close>.\<close>

definition module_init :: "bool \<Rightarrow> (string \<rightharpoonup> string) \<Rightarrow> state" where
  "module_init IS_NODE stored =
     \<lparr>currentUserCache = None, currentUserCacheMatchesDisk = False,
      canUseCurrentUser = (\<not> IS_NODE), disk = stored, nextRef = 0, trace = []\<rparr>"

definition record_call :: "event \<Rightarrow> state \<Rightarrow> state" where
  "record_call ev s = s\<lparr>trace := trace s @ [ev]\<rparr>"

text \<open>
  Modelled from the spec: \<open>get(key)\<close> of the persistent store of section 6, on a
  table of strings (Storage.js is not part of the sources). The synchronous read returns
  the stored text or \<open>null\<close>.
\<close>

definition Storage_getItem :: "string \<Rightarrow> state \<Rightarrow> state \<times> string option" where
  "Storage_getItem path s = (record_call (StoreRead path) s, disk s path)"

text \<open>
  Modelled from the spec: the asynchronous \<open>get(key)\<close> of section 6. The promise
  resolves with the stored text or \<open>null\<close> when the store has performed the read.
\<close>

definition Storage_getItemAsync ::
  "env \<Rightarrow> string \<Rightarrow> state \<Rightarrow> state \<times> string option promise" where
  "Storage_getItemAsync e path s =
     (record_call (StoreRead path) s,
      case getItemAsync_outcome e of
        Pending \<Rightarrow> Pending
      | Rejected x \<Rightarrow> Rejected x
      | Raised x \<Rightarrow> Raised x
      | Resolved u \<Rightarrow> Resolved (disk s path))"

text \<open>
  Modelled from the spec: \<open>set(key, value)\<close> of section 6. The write takes effect, and
  its promise resolves, when the store has performed it.
\<close>

definition Storage_setItemAsync ::
  "env \<Rightarrow> string \<Rightarrow> string \<Rightarrow> state \<Rightarrow> state \<times> unit promise" where
  "Storage_setItemAsync e path v s =
     (case setItemAsync_outcome e of
        Pending \<Rightarrow> (record_call (StoreWrite path v) s, Pending)
      | Rejected x \<Rightarrow> (record_call (StoreWrite path v) s, Rejected x)
      | Raised x \<Rightarrow> (record_call (StoreWrite path v) s, Raised x)
      | Resolved u \<Rightarrow>
          ((record_call (StoreWrite path v) s)\<lparr>disk := (disk s)(path \<mapsto> v)\<rparr>, Resolved ()))"

text \<open>
  Modelled from the spec: \<open>remove(key)\<close> of section 6. The removal takes effect, and
  its promise resolves, when the store has performed it.
\<close>

definition Storage_removeItemAsync ::
  "env \<Rightarrow> string \<Rightarrow> state \<Rightarrow> state \<times> unit promise" where
  "Storage_removeItemAsync e path s =
     (case removeItemAsync_outcome e of
        Pending \<Rightarrow> (record_call (StoreRemove path) s, Pending)
      | Rejected x \<Rightarrow> (record_call (StoreRemove path) s, Rejected x)
      | Raised x \<Rightarrow> (record_call (StoreRemove path) s, Raised x)
      | Resolved u \<Rightarrow>
          ((record_call (StoreRemove path) s)\<lparr>disk := (disk s)(path := None)\<rparr>, Resolved ()))"

text \<open>\<open>RESTController.request(method, path, body, options)\<close>.\<close>

definition RESTController_request ::
  "env \<Rightarrow> string \<Rightarrow> string \<Rightarrow> jobject \<Rightarrow> jobject \<Rightarrow> state \<Rightarrow> state \<times> jobject promise" where
  "RESTController_request e method path body options s =
     (record_call (Request method path body options) s, request_outcome e)"

text \<open>\<open>save\<close> of ParseObject, which \<open>save\<close> of ParseUser calls as \<open>super.save\<close>.\<close>

definition ParseObject_save ::
  "env \<Rightarrow> uref \<Rightarrow> jobject option \<Rightarrow> jobject \<Rightarrow> state \<Rightarrow> state \<times> unit promise" where
  "ParseObject_save e this attrs options s =
     (record_call (Save this attrs options) s, save_outcome e)"

text \<open>
  \<open>ParseObject.fromJSON(json)\<close> builds an object of the class registered under
  \<open>json.className\<close>. The module registers ParseUser under \<open>_User\<close> (line 735); under
  a name with no registered class the object is a plain ParseObject.
\<close>

definition builds_user :: "env \<Rightarrow> jobject \<Rightarrow> bool" where
  "builds_user e json =
     (property json ''className'' = JStr ''_User'' \<or>
      registered_user_class e (property json ''className''))"

definition built_object :: "env \<Rightarrow> jobject \<Rightarrow> nat \<Rightarrow> objref" where
  "built_object e json n = (if builds_user e json then UserObject n else OtherObject n)"

definition ParseObject_fromJSON :: "env \<Rightarrow> jobject \<Rightarrow> state \<Rightarrow> state \<times> objref" where
  "ParseObject_fromJSON e json s =
     ((record_call (FromJSON (built_object e json (nextRef s)) json) s)
        \<lparr>nextRef := Suc (nextRef s)\<rparr>,
      built_object e json (nextRef s))"

text \<open>\<open>new ParseUser()\<close>.\<close>

definition new_ParseUser :: "state \<Rightarrow> state \<times> uref" where
  "new_ParseUser s =
     ((record_call (NewUser (nextRef s)) s)\<lparr>nextRef := Suc (nextRef s)\<rparr>, nextRef s)"

subsection \<open>The cache object\<close>

text \<open>
  \<open>currentUserCache\<close> is a closure over \<open>_currentUserCache\<close> with the two
  methods \<open>get\<close> and \<open>set\<close>; nothing else in the module can reach the variable.
  \<open>set\<close> dispatches first and assigns second.
\<close>

definition currentUserCache_get :: "state \<Rightarrow> objref option" where
  "currentUserCache_get s = currentUserCache s"

definition Store_dispatch :: "user_action \<Rightarrow> state \<Rightarrow> state" where
  "Store_dispatch a s = record_call (Dispatch a (currentUserCache s)) s"

definition currentUserCache_set :: "objref option \<Rightarrow> state \<Rightarrow> state" where
  "currentUserCache_set user s =
     (Store_dispatch (Actions_set user) s)\<lparr>currentUserCache := user\<rparr>"

subsection \<open>Static methods that only touch the module variables\<close>

definition enableUnsafeCurrentUser :: "state \<Rightarrow> state" where
  "enableUnsafeCurrentUser s = s\<lparr>canUseCurrentUser := True\<rparr>"

definition disableUnsafeCurrentUser :: "state \<Rightarrow> state" where
  "disableUnsafeCurrentUser s = s\<lparr>canUseCurrentUser := False\<rparr>"

text \<open>The source's \<open>_clearCache\<close> and \<open>_setCurrentUserCache\<close>.\<close>

definition clearCache :: "state \<Rightarrow> state" where
  "clearCache s = (currentUserCache_set None s)\<lparr>currentUserCacheMatchesDisk := False\<rparr>"

definition setCurrentUserCache :: "objref option \<Rightarrow> state \<Rightarrow> state" where
  "setCurrentUserCache user s = currentUserCache_set user s"

subsection \<open>DefaultController\<close>

definition updateUserOnDisk :: "env \<Rightarrow> uref \<Rightarrow> state \<Rightarrow> state \<times> uref promise" where
  "updateUserOnDisk e user s =
     (let path = Storage_generatePath e CURRENT_USER_KEY;
          json = AList.update ''className'' (JStr ''_User'') (ParseObject_toJSON e user);
          (s1, written) = Storage_setItemAsync e path (JSON_stringify e json) s
      in promise_then written (\<lambda>u s2. (s2, Resolved user)) s1)"

definition setCurrentUser :: "env \<Rightarrow> uref \<Rightarrow> state \<Rightarrow> state \<times> uref promise" where
  "setCurrentUser e user s =
     (let s1 = currentUserCache_set (Some (UserObject user)) s;
          s2 = record_call (CleanupAuthData user) s1;
          s3 = record_call (SynchronizeAllAuthData user) s2
      in updateUserOnDisk e user s3)"

text \<open>The test \<open>!userData\<close> on what the store returned: \<open>null\<close> or the empty text.\<close>

definition no_userData :: "string option \<Rightarrow> bool" where
  "no_userData userData = (case userData of None \<Rightarrow> True | Some text \<Rightarrow> text = [])"

text \<open>
  Lines 778 to 790 of \<open>currentUser\<close>, repeated as lines 815 to 827 of
  \<open>currentUserAsync\<close>: the default class name and the two legacy fields.
\<close>

definition legacy_fields :: "jobject \<Rightarrow> jobject" where
  "legacy_fields userData =
     (let d1 = (if \<not> truthy (property userData ''className'')
                then AList.update ''className'' (JStr ''_User'') userData
                else userData);
          d2 = (if truthy (property d1 ''_id'')
                then AList.delete ''_id''
                       (if strict_neq (property d1 ''objectId'') (property d1 ''_id'')
                        then AList.update ''objectId'' (property d1 ''_id'') d1
                        else d1)
                else d1);
          d3 = (if truthy (property d2 ''_sessionToken'')
                then AList.delete ''_sessionToken''
                       (AList.update ''sessionToken'' (property d2 ''_sessionToken'') d2)
                else d2)
      in d3)"

text \<open>
  Lines 777 to 794, repeated as lines 814 to 831: parse the stored text, translate it,
  build the object, put it in the cache, synchronize its authData. Reading or writing a
  property of \<open>null\<close>, and writing \<open>className\<close> on a primitive in this strict-mode
  module, raise a TypeError. So does the call of \<open>_synchronizeAllAuthData\<close> on an
  object that is no ParseUser, and by then the object is in the cache.
\<close>

definition loadUserData :: "env \<Rightarrow> string \<Rightarrow> state \<Rightarrow> state \<times> (error + objref)" where
  "loadUserData e text s =
     (case JSON_parse e text of
        Inl x \<Rightarrow> (s, Inl x)
      | Inr ParsedNull \<Rightarrow> (s, Inl TypeError)
      | Inr ParsedPrimitive \<Rightarrow> (s, Inl TypeError)
      | Inr (ParsedObject userData) \<Rightarrow>
          (let (s1, current) = ParseObject_fromJSON e (legacy_fields userData) s;
               s2 = currentUserCache_set (Some current) s1
           in case current of
                UserObject user \<Rightarrow> (record_call (SynchronizeAllAuthData user) s2, Inr current)
              | OtherObject n \<Rightarrow> (s2, Inl TypeError)))"

definition currentUser :: "env \<Rightarrow> state \<Rightarrow> state \<times> (error + objref option)" where
  "currentUser e s =
     (case currentUserCache_get s of
        Some cache \<Rightarrow> (s, Inr (Some cache))
      | None \<Rightarrow>
          if currentUserCacheMatchesDisk s then (s, Inr None)
          else if Storage_async e then
            (s, Inl (Error (''Cannot call currentUser() when using a platform with an async '' @
                            ''storage system. Call currentUserAsync() instead.'')))
          else
            (let path = Storage_generatePath e CURRENT_USER_KEY;
                 (s1, userData) = Storage_getItem path s;
                 s2 = s1\<lparr>currentUserCacheMatchesDisk := True\<rparr>
             in if no_userData userData then (currentUserCache_set None s2, Inr None)
                else (case loadUserData e (the userData) s2 of
                        (s3, Inl x) \<Rightarrow> (s3, Inl x)
                      | (s3, Inr current) \<Rightarrow> (s3, Inr (Some current)))))"

definition currentUserAsync :: "env \<Rightarrow> state \<Rightarrow> state \<times> objref option promise" where
  "currentUserAsync e s =
     (case currentUserCache_get s of
        Some cache \<Rightarrow> (s, Resolved (Some cache))
      | None \<Rightarrow>
          if currentUserCacheMatchesDisk s then (s, Resolved None)
          else
            (let path = Storage_generatePath e CURRENT_USER_KEY;
                 (s1, stored) = Storage_getItemAsync e path s
             in promise_then stored
                  (\<lambda>userData t.
                     let s2 = t\<lparr>currentUserCacheMatchesDisk := True\<rparr>
                     in if no_userData userData then (currentUserCache_set None s2, Resolved None)
                        else (case loadUserData e (the userData) s2 of
                                (s3, Inl x) \<Rightarrow> (s3, Raised x)
                              | (s3, Inr current) \<Rightarrow> (s3, Resolved (Some current))))
                  s1))"

definition become :: "env \<Rightarrow> jobject \<Rightarrow> state \<Rightarrow> state \<times> uref promise" where
  "become e options s =
     (let (s1, user) = new_ParseUser s;
          (s2, requested) = RESTController_request e ''GET'' ''users/me'' [] options s1
      in promise_then requested
           (\<lambda>response s3.
              let s4 = record_call (FinishFetch user response) s3;
                  s5 = record_call (SetExisted user True) s4
              in setCurrentUser e user s5)
           s2)"

text \<open>\<open>getSessionToken\<close> of a user is \<open>this.get('sessionToken')\<close>.\<close>

definition getSessionToken :: "env \<Rightarrow> uref \<Rightarrow> jsval" where
  "getSessionToken e user = ParseObject_get e user ''sessionToken''"

text \<open>
  Lines 912 to 918 of \<open>logOut\<close>, for a current user with a revocable session token:
  \<open>promise.then\<close> with the request to the server as callback, and the response of
  the server as the value of the promise.
\<close>

definition logOut_request :: "env \<Rightarrow> jsval \<Rightarrow> unit promise \<Rightarrow> state \<Rightarrow> state \<times> jsval promise" where
  "logOut_request e currentSession removed s =
     promise_then removed
       (\<lambda>u t.
          let (t1, requested) =
                RESTController_request e ''POST'' ''logout'' []
                  [(''sessionToken'', currentSession)] t
          in promise_then requested (\<lambda>response t2. (t2, Resolved (JObj response))) t1)
       s"

text \<open>Lines 920 to 924 of \<open>logOut\<close>, for a current user.\<close>

definition logOut_locally :: "uref \<Rightarrow> state \<Rightarrow> state" where
  "logOut_locally user s =
     (let s1 = record_call (LogOutWithAll user) s;
          s2 = record_call (FinishFetch user [(''sessionToken'', JUndefined)]) s1;
          s3 = s2\<lparr>currentUserCacheMatchesDisk := True\<rparr>
      in currentUserCache_set None s3)"

text \<open>
  \<open>logOut\<close>. The promise of the removal resolves with \<open>undefined\<close>. The callback
  given to \<open>promise.then\<close> at line 914 runs when the removal has resolved: on a
  synchronous store the promise of the removal is resolved when it is returned and the
  request is made at line 914, before the rest of the function; on an asynchronous
  store the removal resolves, and the request is made, after the rest of the function.
  \<open>getSessionToken\<close> is a method of ParseUser: on a cached object of another class
  line 912 raises a TypeError, after the removal has been asked for. An exception
  raised by the call of \<open>removeItemAsync\<close>, or by the request when it is made at
  line 914, leaves the function there.
\<close>

definition logOut :: "env \<Rightarrow> state \<Rightarrow> state \<times> jsval promise" where
  "logOut e s =
     (let (s0, current) = currentUserAsync e s
      in promise_then current
           (\<lambda>currentUser s1.
              let path = Storage_generatePath e CURRENT_USER_KEY;
                  (s2, removed) = Storage_removeItemAsync e path s1
              in case removed of
                   Raised x \<Rightarrow> (s2, Raised x)
                 | _ \<Rightarrow>
                   (case currentUser of
                      None \<Rightarrow>
                        (let s3 = s2\<lparr>currentUserCacheMatchesDisk := True\<rparr>;
                             s4 = currentUserCache_set None s3
                         in promise_then removed (\<lambda>u t. (t, Resolved JUndefined)) s4)
                    | Some (OtherObject n) \<Rightarrow> (s2, Raised TypeError)
                    | Some (UserObject user) \<Rightarrow>
                        (let currentSession = getSessionToken e user
                         in if truthy currentSession \<and> isRevocableSession e currentSession then
                              (if Storage_async e then
                                 logOut_request e currentSession removed (logOut_locally user s2)
                               else
                                 (case logOut_request e currentSession removed s2 of
                                    (s3, Raised x) \<Rightarrow> (s3, Raised x)
                                  | (s3, promise) \<Rightarrow> (logOut_locally user s3, promise)))
                            else
                              promise_then removed (\<lambda>u t. (t, Resolved JUndefined))
                                (logOut_locally user s2))))
           s0)"

subsection \<open>Static methods of ParseUser that go through the controller\<close>

text \<open>
  \<open>CoreManager.getUserController()\<close> is \<open>DefaultController\<close>, which the module
  registers when it is loaded; \<open>_thenRunCallbacks\<close> hands the promise on.
\<close>

definition ParseUser_current :: "env \<Rightarrow> state \<Rightarrow> state \<times> (error + objref option)" where
  "ParseUser_current e s =
     (if \<not> canUseCurrentUser s then (s, Inr None) else currentUser e s)"

definition ParseUser_currentAsync :: "env \<Rightarrow> state \<Rightarrow> state \<times> objref option promise" where
  "ParseUser_currentAsync e s =
     (if \<not> canUseCurrentUser s then (s, Resolved None) else currentUserAsync e s)"

definition ParseUser_become ::
  "env \<Rightarrow> jsval \<Rightarrow> jobject \<Rightarrow> state \<Rightarrow> state \<times> (error + uref promise)" where
  "ParseUser_become e sessionToken options s =
     (if \<not> canUseCurrentUser s then
        (s, Inl (Error ''It is not memory-safe to become a user in a server environment''))
      else
        (let becomeOptions =
               (if hasOwnProperty options ''useMasterKey''
                then [(''sessionToken'', sessionToken),
                      (''useMasterKey'', property options ''useMasterKey'')]
                else [(''sessionToken'', sessionToken)]);
             (s1, p) = become e becomeOptions s
         in (s1, Inr p)))"

definition ParseUser_logOut :: "env \<Rightarrow> state \<Rightarrow> state \<times> (error + jsval promise)" where
  "ParseUser_logOut e s =
     (if \<not> canUseCurrentUser s then
        (s, Inl (Error ''There is no current user user on a node.js server environment.''))
      else (let (s1, p) = logOut e s in (s1, Inr p)))"

subsection \<open>Methods of a user, signUp and logIn\<close>

definition isCurrent :: "env \<Rightarrow> uref \<Rightarrow> state \<Rightarrow> state \<times> (error + bool)" where
  "isCurrent e this s =
     (case ParseUser_current e s of
        (s1, Inl x) \<Rightarrow> (s1, Inl x)
      | (s1, Inr current) \<Rightarrow>
          (s1, Inr (case current of
                      None \<Rightarrow> False
                    | Some c \<Rightarrow> ParseObject_id e c = ParseObject_id e (UserObject this))))"

text \<open>
  \<open>save\<close> of ParseUser (lines 424 to 431). \<open>isCurrent\<close> is called inside the
  callback, where what it raises is not caught.
\<close>

definition ParseUser_save ::
  "env \<Rightarrow> uref \<Rightarrow> jobject option \<Rightarrow> jobject \<Rightarrow> state \<Rightarrow> state \<times> uref promise" where
  "ParseUser_save e this attrs options s =
     (let (s1, saved) = ParseObject_save e this attrs options s
      in promise_then saved
           (\<lambda>u t.
              case isCurrent e this t of
                (t1, Inl x) \<Rightarrow> (t1, Raised x)
              | (t1, Inr current) \<Rightarrow>
                  if current then updateUserOnDisk e this t1 else (t1, Resolved this))
           s1)"

text \<open>The operator \<open>||\<close> and the property \<open>length\<close> of a truthy value.\<close>

definition js_or :: "jsval \<Rightarrow> jsval \<Rightarrow> jsval" where
  "js_or a b = (if truthy a then a else b)"

fun js_length :: "jsval \<Rightarrow> jsval" where
  "js_length (JStr s) = JNum (of_nat (length s))"
| "js_length (JArr xs) = JNum (of_nat (length xs))"
| "js_length (JObj kvs) = property kvs ''length''"
| "js_length v = JUndefined"

definition signUp ::
  "env \<Rightarrow> uref \<Rightarrow> jobject option \<Rightarrow> jobject \<Rightarrow> state \<Rightarrow> state \<times> uref promise" where
  "signUp e user attrs options s =
     (let username =
            js_or (case attrs of None \<Rightarrow> JUndefined | Some a \<Rightarrow> property a ''username'')
              (ParseObject_get e user ''username'');
          password =
            js_or (case attrs of None \<Rightarrow> JUndefined | Some a \<Rightarrow> property a ''password'')
              (ParseObject_get e user ''password'')
      in if \<not> truthy username \<or> \<not> truthy (js_length username) then
           (s, Rejected (ParseError ''OTHER_CAUSE'' ''Cannot sign up user with an empty name.''))
         else if \<not> truthy password \<or> \<not> truthy (js_length password) then
           (s, Rejected (ParseError ''OTHER_CAUSE''
                  ''Cannot sign up user with an empty password.''))
         else
           (let (s1, saved) = ParseUser_save e user attrs options s
            in promise_then saved
                 (\<lambda>u t.
                    let t1 = record_call (FinishFetch user [(''password'', JUndefined)]) t
                    in if canUseCurrentUser t1 then setCurrentUser e user t1
                       else (t1, Resolved user))
                 s1))"

definition logIn :: "env \<Rightarrow> uref \<Rightarrow> jobject \<Rightarrow> state \<Rightarrow> state \<times> uref promise" where
  "logIn e user options s =
     (let auth = [(''username'', ParseObject_get e user ''username''),
                  (''password'', ParseObject_get e user ''password'')];
          (s1, requested) = RESTController_request e ''GET'' ''login'' auth options s
      in promise_then requested
           (\<lambda>response t.
              let t1 = record_call (MigrateId user (property response ''objectId'')) t;
                  t2 = record_call (SetExisted user True) t1;
                  t3 = record_call (SetPendingOp user ''username'' JUndefined) t2;
                  t4 = record_call (SetPendingOp user ''password'' JUndefined) t3;
                  response1 = AList.update ''password'' JUndefined response;
                  t5 = record_call (FinishFetch user response1) t4
              in if \<not> canUseCurrentUser t5 then (t5, Resolved user)
                 else setCurrentUser e user t5)
           s1)"

subsection \<open>The cache as seen through the dispatcher\<close>

text \<open>
  \<open>cache_after c evs\<close> follows the cache through a stretch of the trace, starting
  from the value \<open>c\<close>: every dispatched \<open>Actions.set(v)\<close> must have been made while
  the cache still held the value before it, and leaves the cache at \<open>v\<close>. The result
  is \<open>None\<close> when some dispatch saw a cache other than the one the dispatches before it
  announced.
\<close>

fun cache_after :: "objref option \<Rightarrow> event list \<Rightarrow> objref option option" where
  "cache_after c [] = Some c"
| "cache_after c (Dispatch (Actions_set v) seen # evs) =
     (if seen = c then cache_after v evs else None)"
| "cache_after c (ev # evs) = cache_after c evs"

text \<open>
  \<open>dispatched_first s s'\<close>: the trace of \<open>s'\<close> extends that of \<open>s\<close>, and the
  dispatches of the extension account for the cache of \<open>s'\<close>.
\<close>

definition dispatched_first :: "state \<Rightarrow> state \<Rightarrow> bool" where
  "dispatched_first s s' =
     (take (length (trace s)) (trace s') = trace s \<and>
      cache_after (currentUserCache s) (drop (length (trace s)) (trace s')) =
        Some (currentUserCache s'))"

subsection \<open>The state of one object\<close>

text \<open>
  Modelled from the spec: the Object State of section 3 (ObjectState.js and
  ParseObject.js are not part of the sources). The pending sets are never empty: the
  newest one, which takes the local edits, is \<open>topOps\<close>, the older ones, oldest first,
  are \<open>olderOps\<close>.
\<close>

record object_state =
  serverData :: "string \<rightharpoonup> jsval"
  olderOps :: "(string \<rightharpoonup> jsval) list"
  topOps :: "string \<rightharpoonup> jsval"

text \<open>
  Modelled from the spec: \<open>setPendingOp\<close> of section 4.1 writes into the newest pending
  set, and deletes the key when the operation is \<open>undefined\<close>.
\<close>

definition ObjectState_setPendingOp :: "string \<Rightarrow> jsval \<Rightarrow> object_state \<Rightarrow> object_state" where
  "ObjectState_setPendingOp attr op st =
     st\<lparr>topOps := (topOps st)(attr := (if op = JUndefined then None else Some op))\<rparr>"

text \<open>
  Modelled from the spec: the shallow merge of \<open>setServerData\<close> in section 4.1,
  attribute by attribute, where \<open>undefined\<close>, which is no attribute value, is the value
  that removes the key.
\<close>

definition merge_attributes :: "(string \<rightharpoonup> jsval) \<Rightarrow> jobject \<Rightarrow> (string \<rightharpoonup> jsval)" where
  "merge_attributes m attrs =
     (\<lambda>k. case map_of attrs k of
            None \<Rightarrow> m k
          | Some v \<Rightarrow> if v = JUndefined then None else Some v)"

text \<open>
  Modelled from the spec: \<open>commitServerChanges\<close> of section 4.1, the same mechanics as
  \<open>setServerData\<close>.
\<close>

definition ObjectState_commitServerChanges :: "jobject \<Rightarrow> object_state \<Rightarrow> object_state" where
  "ObjectState_commitServerChanges attrs st =
     st\<lparr>serverData := merge_attributes (serverData st) attrs\<rparr>"

text \<open>
  Modelled from the spec: what a call recorded in the trace does to the state of the
  object \<open>this\<close>. \<open>_finishFetch(attrs)\<close> closes a fetch, which section 4.1 words as
  \<open>commitServerChanges\<close>; \<open>ObjectState.setPendingOp\<close> is \<open>setPendingOp\<close>; what
  \<open>save\<close> leaves behind is the parameter \<open>saved\<close>; the other calls do not write
  attributes or pending operations.
\<close>

fun entity_call ::
  "(object_state \<Rightarrow> object_state) \<Rightarrow> uref \<Rightarrow> object_state \<Rightarrow> event \<Rightarrow> object_state" where
  "entity_call saved this st (FinishFetch u attrs) =
     (if u = this then ObjectState_commitServerChanges attrs st else st)"
| "entity_call saved this st (SetPendingOp u attr op) =
     (if u = this then ObjectState_setPendingOp attr op st else st)"
| "entity_call saved this st (Save u attrs options) = (if u = this then saved st else st)"
| "entity_call saved this st ev = st"

text \<open>The state of the object \<open>this\<close> after the calls made between two states.\<close>

definition object_after ::
  "(object_state \<Rightarrow> object_state) \<Rightarrow> uref \<Rightarrow> object_state \<Rightarrow> state \<Rightarrow> state \<Rightarrow> object_state" where
  "object_after saved this st s s' =
     foldl (entity_call saved this) st (drop (length (trace s)) (trace s'))"

text \<open>An attribute is held by an object when its confirmed data or a pending set has it.\<close>

definition holds_attribute :: "object_state \<Rightarrow> string \<Rightarrow> bool" where
  "holds_attribute st attr =
     (serverData st attr \<noteq> None \<or> topOps st attr \<noteq> None \<or>
      list_ex (\<lambda>ops. ops attr \<noteq> None) (olderOps st))"

subsection \<open>Sample collaborators and states\<close>

text \<open>
  \<open>JSON.parse\<close> on the six texts it is applied to below: the empty object, an
  object with empty legacy fields, an object with both legacy fields, an object of the
  class \<open>Foo\<close>, the text \<open>null\<close>, and the malformed text of one opening brace,
  which is a syntax error.
\<close>

definition sample_parse :: "string \<Rightarrow> error + parsed" where
  "sample_parse text =
     (if text = ''{}'' then Inr (ParsedObject [])
      else if text = ''{\"_id\":\"\",\"_sessionToken\":\"\"}''
        then Inr (ParsedObject [(''_id'', JStr ''''), (''_sessionToken'', JStr '''')])
      else if text = ''{\"_id\":\"u1\",\"_sessionToken\":\"r:abc\"}''
        then Inr (ParsedObject [(''_id'', JStr ''u1''), (''_sessionToken'', JStr ''r:abc'')])
      else if text = ''{\"className\":\"Foo\"}''
        then Inr (ParsedObject [(''className'', JStr ''Foo'')])
      else if text = ''null'' then Inr ParsedNull
      else Inl SyntaxError)"

text \<open>
  Collaborators with the store asynchronous or not, one outcome for the three store
  operations and for \<open>save\<close>, and one for the network request. Every user has the
  session token \<open>r:abc\<close>, and a token that begins with \<open>r:\<close> is revocable. No
  subclass of ParseUser is registered.
\<close>

definition sample_env :: "bool \<Rightarrow> unit promise \<Rightarrow> jobject promise \<Rightarrow> env" where
  "sample_env async io net =
     \<lparr>Storage_async = async,
      Storage_generatePath = (\<lambda>key. ''Parse/app/'' @ key),
      JSON_parse = sample_parse,
      JSON_stringify = (\<lambda>json. ''{}''),
      ParseObject_toJSON = (\<lambda>u. []),
      ParseObject_get =
        (\<lambda>u k. if k = ''sessionToken'' then JStr ''r:abc''
               else if k = ''username'' then JStr ''ann''
               else if k = ''password'' then JStr ''secret''
               else JUndefined),
      ParseObject_id = (\<lambda>u. None),
      registered_user_class = (\<lambda>c. False),
      isRevocableSession = (\<lambda>v. case v of JStr t \<Rightarrow> take 2 t = ''r:'' | _ \<Rightarrow> False),
      getItemAsync_outcome = io,
      setItemAsync_outcome = io,
      removeItemAsync_outcome = io,
      request_outcome = net,
      save_outcome = io\<rparr>"

text \<open>The state after loading the module in a browser, with one text in the store.\<close>

definition sample_state :: "string option \<Rightarrow> state" where
  "sample_state stored =
     module_init False (\<lambda>key. if key = ''Parse/app/currentUser'' then stored else None)"

section \<open>Properties\<close>

subsection \<open>Action creators\<close>

text \<open>
  Claim C7. For every argument list, each of the ten action creators returns a command
  whose \<open>type\<close> is the corresponding tag of the dispatcher vocabulary and whose
  \<open>payload\<close> is exactly the argument list of the call.
\<close>

theorem action_creators_tag_and_payload:
  "type (initializeState args) = ''INITIALIZE_STATE'' \<and> payload (initializeState args) = args \<and>
   type (removeState args) = ''REMOVE_STATE'' \<and> payload (removeState args) = args \<and>
   type (setServerData args) = ''SET_SERVER_DATA'' \<and> payload (setServerData args) = args \<and>
   type (setPendingOp args) = ''SET_PENDING_OP'' \<and> payload (setPendingOp args) = args \<and>
   type (pushPendingState args) = ''PUSH_PENDING_STATE'' \<and> payload (pushPendingState args) = args \<and>
   type (popPendingState args) = ''POP_PENDING_STATE'' \<and> payload (popPendingState args) = args \<and>
   type (mergeFirstPendingState args) = ''MERGE_FIRST_PENDING_STATE'' \<and>
     payload (mergeFirstPendingState args) = args \<and>
   type (commitServerChanges args) = ''COMMIT_SERVER_CHANGES'' \<and>
     payload (commitServerChanges args) = args \<and>
   type (enqueueTask args) = ''ENQUEUE_TASK'' \<and> payload (enqueueTask args) = args \<and>
   type (clearAllState args) = ''CLEAR_ALL_STATE'' \<and> payload (clearAllState args) = args"
  by (simp add: initializeState_def removeState_def setServerData_def setPendingOp_def
      pushPendingState_def popPendingState_def mergeFirstPendingState_def
      commitServerChanges_def enqueueTask_def clearAllState_def)

subsection \<open>Reading the current user\<close>

lemmas io_defs = record_call_def Storage_getItem_def Storage_getItemAsync_def
  Storage_setItemAsync_def Storage_removeItemAsync_def RESTController_request_def
  ParseObject_fromJSON_def new_ParseUser_def ParseObject_save_def

lemmas cache_defs = currentUserCache_get_def Store_dispatch_def currentUserCache_set_def

lemmas sample_defs = sample_env_def sample_state_def sample_parse_def module_init_def
  CURRENT_USER_KEY_def

lemma currentUser_cached:
  "currentUserCache s = Some u \<Longrightarrow> currentUser e s = (s, Inr (Some u))"
  by (simp add: currentUser_def currentUserCache_get_def)

lemma currentUserAsync_cached:
  "currentUserCache s = Some u \<Longrightarrow> currentUserAsync e s = (s, Resolved (Some u))"
  by (simp add: currentUserAsync_def currentUserCache_get_def)

lemma currentUser_absent:
  "currentUserCache s = None \<Longrightarrow> currentUserCacheMatchesDisk s \<Longrightarrow>
   currentUser e s = (s, Inr None)"
  by (simp add: currentUser_def currentUserCache_get_def)

lemma currentUserAsync_absent:
  "currentUserCache s = None \<Longrightarrow> currentUserCacheMatchesDisk s \<Longrightarrow>
   currentUserAsync e s = (s, Resolved None)"
  by (simp add: currentUserAsync_def currentUserCache_get_def)

text \<open>What a read that goes to the store leaves behind, by what the store holds.\<close>

lemma currentUser_nothing_stored:
  assumes "currentUserCache s = None" "\<not> currentUserCacheMatchesDisk s" "\<not> Storage_async e"
    and "no_userData (disk s (Storage_generatePath e CURRENT_USER_KEY))"
  shows "currentUser e s =
           (s\<lparr>currentUserCacheMatchesDisk := True,
              trace := trace s @ [StoreRead (Storage_generatePath e CURRENT_USER_KEY),
                                  Dispatch (Actions_set None) None]\<rparr>, Inr None)"
  using assms by (simp add: currentUser_def io_defs cache_defs Let_def)

lemma currentUser_unparsable_stored:
  assumes "currentUserCache s = None" "\<not> currentUserCacheMatchesDisk s" "\<not> Storage_async e"
    and "disk s (Storage_generatePath e CURRENT_USER_KEY) = Some text" "text \<noteq> []"
    and "JSON_parse e text = Inl x"
  shows "currentUser e s =
           (s\<lparr>currentUserCacheMatchesDisk := True,
              trace := trace s @ [StoreRead (Storage_generatePath e CURRENT_USER_KEY)]\<rparr>,
            Inl x)"
  using assms
  by (simp add: currentUser_def loadUserData_def no_userData_def io_defs cache_defs Let_def)

lemma currentUser_no_object_stored:
  assumes "currentUserCache s = None" "\<not> currentUserCacheMatchesDisk s" "\<not> Storage_async e"
    and "disk s (Storage_generatePath e CURRENT_USER_KEY) = Some text" "text \<noteq> []"
    and "JSON_parse e text = Inr ParsedNull \<or> JSON_parse e text = Inr ParsedPrimitive"
  shows "currentUser e s =
           (s\<lparr>currentUserCacheMatchesDisk := True,
              trace := trace s @ [StoreRead (Storage_generatePath e CURRENT_USER_KEY)]\<rparr>,
            Inl TypeError)"
  using assms
  by (auto simp add: currentUser_def loadUserData_def no_userData_def io_defs cache_defs Let_def)

lemma currentUser_snapshot_stored:
  assumes "currentUserCache s = None" "\<not> currentUserCacheMatchesDisk s" "\<not> Storage_async e"
    and "disk s (Storage_generatePath e CURRENT_USER_KEY) = Some text" "text \<noteq> []"
    and "JSON_parse e text = Inr (ParsedObject d)" "builds_user e (legacy_fields d)"
  shows "currentUser e s =
           (s\<lparr>currentUserCache := Some (UserObject (nextRef s)),
              currentUserCacheMatchesDisk := True, nextRef := Suc (nextRef s),
              trace := trace s @ [StoreRead (Storage_generatePath e CURRENT_USER_KEY),
                                  FromJSON (UserObject (nextRef s)) (legacy_fields d),
                                  Dispatch (Actions_set (Some (UserObject (nextRef s)))) None,
                                  SynchronizeAllAuthData (nextRef s)]\<rparr>,
            Inr (Some (UserObject (nextRef s))))"
  using assms
  by (simp add: currentUser_def loadUserData_def no_userData_def built_object_def
      io_defs cache_defs Let_def)

lemma currentUser_other_stored:
  assumes "currentUserCache s = None" "\<not> currentUserCacheMatchesDisk s" "\<not> Storage_async e"
    and "disk s (Storage_generatePath e CURRENT_USER_KEY) = Some text" "text \<noteq> []"
    and "JSON_parse e text = Inr (ParsedObject d)" "\<not> builds_user e (legacy_fields d)"
  shows "currentUser e s =
           (s\<lparr>currentUserCache := Some (OtherObject (nextRef s)),
              currentUserCacheMatchesDisk := True, nextRef := Suc (nextRef s),
              trace := trace s @ [StoreRead (Storage_generatePath e CURRENT_USER_KEY),
                                  FromJSON (OtherObject (nextRef s)) (legacy_fields d),
                                  Dispatch (Actions_set (Some (OtherObject (nextRef s)))) None]\<rparr>,
            Inl TypeError)"
  using assms
  by (simp add: currentUser_def loadUserData_def no_userData_def built_object_def
      io_defs cache_defs Let_def)

text \<open>
  Once the read of the store has resolved, \<open>currentUserAsync\<close> does what
  \<open>currentUser\<close> does on a synchronous store.
\<close>

lemma currentUserAsync_resolved:
  assumes "getItemAsync_outcome e = Resolved ()"
  shows "currentUserAsync e s =
           (fst (currentUser (e\<lparr>Storage_async := False\<rparr>) s),
            case snd (currentUser (e\<lparr>Storage_async := False\<rparr>) s) of
              Inl x \<Rightarrow> Raised x
            | Inr current \<Rightarrow> Resolved current)"
  using assms
  by (simp add: currentUserAsync_def currentUser_def loadUserData_def promise_then_def
      builds_user_def built_object_def io_defs cache_defs Let_def
      split: option.splits sum.splits parsed.splits objref.splits)

lemma currentUserAsync_unsettled:
  assumes "currentUserCache s = None" "\<not> currentUserCacheMatchesDisk s"
  shows "getItemAsync_outcome e = Pending \<Longrightarrow>
           currentUserAsync e s =
             (record_call (StoreRead (Storage_generatePath e CURRENT_USER_KEY)) s, Pending)"
    and "getItemAsync_outcome e = Rejected x \<Longrightarrow>
           currentUserAsync e s =
             (record_call (StoreRead (Storage_generatePath e CURRENT_USER_KEY)) s, Rejected x)"
    and "getItemAsync_outcome e = Raised x \<Longrightarrow>
           currentUserAsync e s =
             (record_call (StoreRead (Storage_generatePath e CURRENT_USER_KEY)) s, Raised x)"
  using assms
  by (simp_all add: currentUserAsync_def promise_then_def Storage_getItemAsync_def
      cache_defs Let_def)

text \<open>
  Claim C1, as amended. A read of the current user, by \<open>currentUser\<close> or by
  \<open>currentUserAsync\<close>, returns the cached object without touching the store when the
  cache holds one, and returns absent without touching the store when the cache is
  empty and \<open>currentUserCacheMatchesDisk\<close> is set. Otherwise \<open>currentUser\<close> on a
  synchronous store reads the store and sets \<open>currentUserCacheMatchesDisk\<close>; it
  clears the cache (through the dispatcher) and returns absent when the store holds
  nothing or the empty text; it puts the object built from the stored text in the cache
  when that text parses to an object, and returns it if it is a user and raises a
  TypeError if it is not; it leaves the cache empty and raises when the text does not
  parse or parses to no object. \<open>currentUserAsync\<close> reads the store; once that read
  has resolved it does the same, an exception being raised out of the callback, and
  while the read is pending or when it has failed or raised the flag and the cache are
  as they were.
\<close>

theorem current_identity_read:
  "(currentUserCache s = Some u \<longrightarrow>
      currentUser e s = (s, Inr (Some u)) \<and> currentUserAsync e s = (s, Resolved (Some u))) \<and>
   (currentUserCache s = None \<and> currentUserCacheMatchesDisk s \<longrightarrow>
      currentUser e s = (s, Inr None) \<and> currentUserAsync e s = (s, Resolved None)) \<and>
   (currentUserCache s = None \<and> \<not> currentUserCacheMatchesDisk s \<and> \<not> Storage_async e \<and>
    no_userData (disk s (Storage_generatePath e CURRENT_USER_KEY)) \<longrightarrow>
      currentUser e s =
        (s\<lparr>currentUserCacheMatchesDisk := True,
           trace := trace s @ [StoreRead (Storage_generatePath e CURRENT_USER_KEY),
                               Dispatch (Actions_set None) None]\<rparr>, Inr None)) \<and>
   (currentUserCache s = None \<and> \<not> currentUserCacheMatchesDisk s \<and> \<not> Storage_async e \<and>
    disk s (Storage_generatePath e CURRENT_USER_KEY) = Some text \<and> text \<noteq> [] \<and>
    JSON_parse e text = Inr (ParsedObject d) \<and> builds_user e (legacy_fields d) \<longrightarrow>
      currentUser e s =
        (s\<lparr>currentUserCache := Some (UserObject (nextRef s)),
           currentUserCacheMatchesDisk := True, nextRef := Suc (nextRef s),
           trace := trace s @ [StoreRead (Storage_generatePath e CURRENT_USER_KEY),
                               FromJSON (UserObject (nextRef s)) (legacy_fields d),
                               Dispatch (Actions_set (Some (UserObject (nextRef s)))) None,
                               SynchronizeAllAuthData (nextRef s)]\<rparr>,
         Inr (Some (UserObject (nextRef s))))) \<and>
   (currentUserCache s = None \<and> \<not> currentUserCacheMatchesDisk s \<and> \<not> Storage_async e \<and>
    disk s (Storage_generatePath e CURRENT_USER_KEY) = Some text \<and> text \<noteq> [] \<and>
    JSON_parse e text = Inr (ParsedObject d) \<and> \<not> builds_user e (legacy_fields d) \<longrightarrow>
      currentUser e s =
        (s\<lparr>currentUserCache := Some (OtherObject (nextRef s)),
           currentUserCacheMatchesDisk := True, nextRef := Suc (nextRef s),
           trace := trace s @ [StoreRead (Storage_generatePath e CURRENT_USER_KEY),
                               FromJSON (OtherObject (nextRef s)) (legacy_fields d),
                               Dispatch (Actions_set (Some (OtherObject (nextRef s)))) None]\<rparr>,
         Inl TypeError)) \<and>
   (currentUserCache s = None \<and> \<not> currentUserCacheMatchesDisk s \<and> \<not> Storage_async e \<and>
    disk s (Storage_generatePath e CURRENT_USER_KEY) = Some text \<and> text \<noteq> [] \<and>
    JSON_parse e text = Inl x \<longrightarrow>
      currentUser e s =
        (s\<lparr>currentUserCacheMatchesDisk := True,
           trace := trace s @ [StoreRead (Storage_generatePath e CURRENT_USER_KEY)]\<rparr>,
         Inl x)) \<and>
   (currentUserCache s = None \<and> \<not> currentUserCacheMatchesDisk s \<and> \<not> Storage_async e \<and>
    disk s (Storage_generatePath e CURRENT_USER_KEY) = Some text \<and> text \<noteq> [] \<and>
    (JSON_parse e text = Inr ParsedNull \<or> JSON_parse e text = Inr ParsedPrimitive) \<longrightarrow>
      currentUser e s =
        (s\<lparr>currentUserCacheMatchesDisk := True,
           trace := trace s @ [StoreRead (Storage_generatePath e CURRENT_USER_KEY)]\<rparr>,
         Inl TypeError)) \<and>
   (getItemAsync_outcome e = Resolved () \<longrightarrow>
      currentUserAsync e s =
        (fst (currentUser (e\<lparr>Storage_async := False\<rparr>) s),
         case snd (currentUser (e\<lparr>Storage_async := False\<rparr>) s) of
           Inl x \<Rightarrow> Raised x
         | Inr current \<Rightarrow> Resolved current)) \<and>
   (currentUserCache s = None \<and> \<not> currentUserCacheMatchesDisk s \<and>
    getItemAsync_outcome e = Pending \<longrightarrow>
      currentUserAsync e s =
        (record_call (StoreRead (Storage_generatePath e CURRENT_USER_KEY)) s, Pending)) \<and>
   (currentUserCache s = None \<and> \<not> currentUserCacheMatchesDisk s \<and>
    getItemAsync_outcome e = Rejected x \<longrightarrow>
      currentUserAsync e s =
        (record_call (StoreRead (Storage_generatePath e CURRENT_USER_KEY)) s, Rejected x)) \<and>
   (currentUserCache s = None \<and> \<not> currentUserCacheMatchesDisk s \<and>
    getItemAsync_outcome e = Raised x \<longrightarrow>
      currentUserAsync e s =
        (record_call (StoreRead (Storage_generatePath e CURRENT_USER_KEY)) s, Raised x))"
  by (intro conjI impI; (elim conjE)?)
    (simp_all add: currentUser_cached currentUserAsync_cached currentUser_absent
      currentUserAsync_absent currentUser_nothing_stored currentUser_snapshot_stored
      currentUser_other_stored currentUser_unparsable_stored currentUser_no_object_stored
      currentUserAsync_resolved currentUserAsync_unsettled)

theorem current_identity_read_witness:
  "currentUser (sample_env False (Resolved ()) Pending)
      ((sample_state None)\<lparr>currentUserCache := Some (UserObject 5)\<rparr>) =
     ((sample_state None)\<lparr>currentUserCache := Some (UserObject 5)\<rparr>,
      Inr (Some (UserObject 5))) \<and>
   currentUserAsync (sample_env True Pending Pending)
      ((sample_state None)\<lparr>currentUserCacheMatchesDisk := True\<rparr>) =
     ((sample_state None)\<lparr>currentUserCacheMatchesDisk := True\<rparr>, Resolved None) \<and>
   snd (currentUser (sample_env False (Resolved ()) Pending) (sample_state None)) = Inr None \<and>
   currentUserCacheMatchesDisk
     (fst (currentUser (sample_env False (Resolved ()) Pending) (sample_state None))) \<and>
   snd (currentUser (sample_env False (Resolved ()) Pending)
          (sample_state (Some ''{\"_id\":\"u1\",\"_sessionToken\":\"r:abc\"}''))) =
     Inr (Some (UserObject 0)) \<and>
   snd (currentUser (sample_env False (Resolved ()) Pending)
          (sample_state (Some ''{\"className\":\"Foo\"}''))) = Inl TypeError \<and>
   currentUserCache (fst (currentUser (sample_env False (Resolved ()) Pending)
          (sample_state (Some ''{\"className\":\"Foo\"}'')))) = Some (OtherObject 0) \<and>
   snd (currentUser (sample_env False (Resolved ()) Pending) (sample_state (Some ''{''))) =
     Inl SyntaxError \<and>
   currentUserCacheMatchesDisk
     (fst (currentUser (sample_env False (Resolved ()) Pending) (sample_state (Some ''{'')))) \<and>
   snd (currentUser (sample_env False (Resolved ()) Pending) (sample_state (Some ''null''))) =
     Inl TypeError \<and>
   snd (currentUserAsync (sample_env True (Resolved ()) Pending)
          (sample_state (Some ''{\"className\":\"Foo\"}''))) = Raised TypeError \<and>
   currentUserAsync (sample_env True Pending Pending) (sample_state (Some ''{}'')) =
     (record_call (StoreRead ''Parse/app/currentUser'') (sample_state (Some ''{}'')), Pending) \<and>
   currentUserAsync (sample_env True (Rejected (Failure ''read'')) Pending)
       (sample_state (Some ''{}'')) =
     (record_call (StoreRead ''Parse/app/currentUser'') (sample_state (Some ''{}'')),
      Rejected (Failure ''read'')) \<and>
   currentUserAsync (sample_env True (Raised (Failure ''read'')) Pending)
       (sample_state (Some ''{}'')) =
     (record_call (StoreRead ''Parse/app/currentUser'') (sample_state (Some ''{}'')),
      Raised (Failure ''read''))"
proof -
  let ?user = "''{\"_id\":\"u1\",\"_sessionToken\":\"r:abc\"}''"
  let ?foo = "''{\"className\":\"Foo\"}''"
  let ?sync = "sample_env False (Resolved ()) Pending"
  let ?async = "sample_env True (Resolved ()) Pending"
  let ?pending = "sample_env True Pending Pending"
  let ?rejected = "sample_env True (Rejected (Failure ''read'')) Pending"
  let ?raised = "sample_env True (Raised (Failure ''read'')) Pending"
  let ?cached = "(sample_state None)\<lparr>currentUserCache := Some (UserObject 5)\<rparr>"
  let ?known = "(sample_state None)\<lparr>currentUserCacheMatchesDisk := True\<rparr>"
  note inst = current_identity_read
  have path: "\<And>a io net. Storage_generatePath (sample_env a io net) CURRENT_USER_KEY =
      ''Parse/app/currentUser''"
    by (simp add: sample_defs)
  have unknown: "\<And>stored. currentUserCache (sample_state stored) = None \<and>
      \<not> currentUserCacheMatchesDisk (sample_state stored)"
    by (simp add: sample_defs)
  have stored: "\<And>stored. disk (sample_state stored) ''Parse/app/currentUser'' = stored"
    by (simp add: sample_defs)
  have sync: "\<not> Storage_async ?sync"
    by (simp add: sample_defs)
  have legacy_user: "builds_user ?sync
      (legacy_fields [(''_id'', JStr ''u1''), (''_sessionToken'', JStr ''r:abc'')])"
    by (simp add: builds_user_def legacy_fields_def property_def strict_neq_def Let_def)
  have legacy_foo: "\<not> builds_user ?sync (legacy_fields [(''className'', JStr ''Foo'')])"
    by (simp add: builds_user_def legacy_fields_def property_def sample_defs Let_def)
  have parse: "JSON_parse ?sync ?user =
        Inr (ParsedObject [(''_id'', JStr ''u1''), (''_sessionToken'', JStr ''r:abc'')])"
      "JSON_parse ?sync ?foo = Inr (ParsedObject [(''className'', JStr ''Foo'')])"
      "JSON_parse ?sync ''{'' = Inl SyntaxError"
      "JSON_parse ?sync ''null'' = Inr ParsedNull"
    by (simp_all add: sample_defs)
  have 1: "currentUser ?sync ?cached = (?cached, Inr (Some (UserObject 5)))"
    using inst [of ?cached "UserObject 5" ?sync] by simp
  have 2: "currentUserAsync ?pending ?known = (?known, Resolved None)"
    using inst [of ?known _ ?pending] unknown [of None] by simp
  have 3: "snd (currentUser ?sync (sample_state None)) = Inr None \<and>
      currentUserCacheMatchesDisk (fst (currentUser ?sync (sample_state None)))"
    using inst [of "sample_state None" _ ?sync] unknown [of None] sync stored [of None]
    by (simp add: path no_userData_def)
  have 4: "snd (currentUser ?sync (sample_state (Some ?user))) = Inr (Some (UserObject 0))"
    using inst [of "sample_state (Some ?user)" _ ?sync ?user
        "[(''_id'', JStr ''u1''), (''_sessionToken'', JStr ''r:abc'')]"]
      unknown [of "Some ?user"] sync stored [of "Some ?user"] parse(1) legacy_user
    by (simp add: path) (simp add: sample_defs)
  have 5: "snd (currentUser ?sync (sample_state (Some ?foo))) = Inl TypeError \<and>
      currentUserCache (fst (currentUser ?sync (sample_state (Some ?foo)))) =
        Some (OtherObject 0)"
    using inst [of "sample_state (Some ?foo)" _ ?sync ?foo "[(''className'', JStr ''Foo'')]"]
      unknown [of "Some ?foo"] sync stored [of "Some ?foo"] parse(2) legacy_foo
    by (simp add: path) (simp add: sample_defs)
  have 6: "snd (currentUser ?sync (sample_state (Some ''{''))) = Inl SyntaxError \<and>
      currentUserCacheMatchesDisk (fst (currentUser ?sync (sample_state (Some ''{''))))"
    using inst [of "sample_state (Some ''{'')" _ ?sync "''{''" _ SyntaxError]
      unknown [of "Some ''{''"] sync stored [of "Some ''{''"] parse(3)
    by (simp add: path)
  have 7: "snd (currentUser ?sync (sample_state (Some ''null''))) = Inl TypeError"
    using inst [of "sample_state (Some ''null'')" _ ?sync "''null''"]
      unknown [of "Some ''null''"] sync stored [of "Some ''null''"] parse(4)
    by (simp add: path)
  have same: "?async\<lparr>Storage_async := False\<rparr> = ?sync"
    by (simp add: sample_env_def)
  have 8: "snd (currentUserAsync ?async (sample_state (Some ?foo))) = Raised TypeError"
    using inst [of "sample_state (Some ?foo)" _ ?async] 5
    by (simp add: same) (simp add: sample_defs)
  have 9: "currentUserAsync ?pending (sample_state (Some ''{}'')) =
      (record_call (StoreRead ''Parse/app/currentUser'') (sample_state (Some ''{}'')), Pending)"
    using inst [of "sample_state (Some ''{}'')" _ ?pending] unknown [of "Some ''{}''"]
    by (simp add: path) (simp add: sample_defs)
  have 10: "currentUserAsync ?rejected (sample_state (Some ''{}'')) =
      (record_call (StoreRead ''Parse/app/currentUser'') (sample_state (Some ''{}'')),
       Rejected (Failure ''read''))"
    using inst [of "sample_state (Some ''{}'')" _ ?rejected _ _ "Failure ''read''"]
      unknown [of "Some ''{}''"]
    by (simp add: path) (simp add: sample_defs)
  have 11: "currentUserAsync ?raised (sample_state (Some ''{}'')) =
      (record_call (StoreRead ''Parse/app/currentUser'') (sample_state (Some ''{}'')),
       Raised (Failure ''read''))"
    using inst [of "sample_state (Some ''{}'')" _ ?raised _ _ "Failure ''read''"]
      unknown [of "Some ''{}''"]
    by (simp add: path) (simp add: sample_defs)
  from 1 2 3 4 5 6 7 8 9 10 11 show ?thesis by (intro conjI) simp_all
qed

text \<open>
  Claim C1 as stated fails for \<open>currentUser\<close> on an asynchronous store: with the cache
  empty and \<open>currentUserCacheMatchesDisk\<close> false, the store is not read, the flag stays
  false, and an error is raised, although the store holds a snapshot.
\<close>

theorem current_identity_read_counterexample:
  "currentUserCache (sample_state (Some ''{}'')) = None \<and>
   \<not> currentUserCacheMatchesDisk (sample_state (Some ''{}'')) \<and>
   trace (fst (currentUser (sample_env True (Resolved ()) Pending)
                 (sample_state (Some ''{}'')))) = [] \<and>
   \<not> currentUserCacheMatchesDisk
       (fst (currentUser (sample_env True (Resolved ()) Pending) (sample_state (Some ''{}'')))) \<and>
   snd (currentUser (sample_env True (Resolved ()) Pending) (sample_state (Some ''{}''))) =
     Inl (Error (''Cannot call currentUser() when using a platform with an async '' @
                 ''storage system. Call currentUserAsync() instead.''))"
  by (simp add: currentUser_def cache_defs sample_defs)

text \<open>
  Claim C5. When the cache is empty, \<open>currentUserCacheMatchesDisk\<close> is false and the
  store is asynchronous, \<open>currentUser\<close> raises an error and leaves the state as it
  was: the trace gets no read of the store, and nothing is returned.
\<close>

theorem currentUser_async_store_raises:
  assumes "currentUserCache s = None" "\<not> currentUserCacheMatchesDisk s" "Storage_async e"
  shows "currentUser e s =
           (s, Inl (Error (''Cannot call currentUser() when using a platform with an async '' @
                           ''storage system. Call currentUserAsync() instead.'')))"
  using assms by (simp add: currentUser_def currentUserCache_get_def)

theorem currentUser_async_store_raises_witness:
  "currentUserCache (sample_state (Some ''{}'')) = None \<and>
   \<not> currentUserCacheMatchesDisk (sample_state (Some ''{}'')) \<and>
   Storage_async (sample_env True (Resolved ()) Pending) \<and>
   currentUser (sample_env True (Resolved ()) Pending) (sample_state (Some ''{}'')) =
     (sample_state (Some ''{}''),
      Inl (Error (''Cannot call currentUser() when using a platform with an async '' @
                  ''storage system. Call currentUserAsync() instead.'')))"
proof -
  have a: "currentUserCache (sample_state (Some ''{}'')) = None"
    and b: "\<not> currentUserCacheMatchesDisk (sample_state (Some ''{}''))"
    and c: "Storage_async (sample_env True (Resolved ()) Pending)"
    by (simp_all add: sample_defs)
  from a b c currentUser_async_store_raises [OF a b c] show ?thesis by blast
qed

subsection \<open>Writing the current user\<close>

lemma updateUserOnDisk_cache:
  "currentUserCache (fst (updateUserOnDisk e u s)) = currentUserCache s"
  by (simp add: updateUserOnDisk_def promise_then_def io_defs Let_def split: promise.splits)

lemma updateUserOnDisk_pending:
  "setItemAsync_outcome e = Pending \<Longrightarrow>
   snd (updateUserOnDisk e u s) = Pending \<and> disk (fst (updateUserOnDisk e u s)) = disk s"
  by (simp add: updateUserOnDisk_def promise_then_def io_defs Let_def)

lemma setCurrentUser_cache:
  "currentUserCache (fst (setCurrentUser e u s)) = Some (UserObject u)"
  by (simp add: setCurrentUser_def updateUserOnDisk_cache cache_defs io_defs)

lemma setCurrentUser_pending:
  "setItemAsync_outcome e = Pending \<Longrightarrow>
   snd (setCurrentUser e u s) = Pending \<and> disk (fst (setCurrentUser e u s)) = disk s"
  by (simp add: setCurrentUser_def updateUserOnDisk_pending cache_defs io_defs)

text \<open>
  Claim C2. For every user \<open>U\<close>, every state and whatever the store does with the
  write, the state that \<open>setCurrentUser U\<close> leaves has \<open>U\<close> in the cache, and a
  read in that state, by \<open>currentUser\<close> or \<open>currentUserAsync\<close>, returns \<open>U\<close> and
  leaves the state, its trace of store accesses included, unchanged. In particular
  while the write is pending the promise of \<open>setCurrentUser\<close> is pending and the store
  still holds what it held.
\<close>

theorem setCurrentUser_read_your_writes:
  "currentUserCache (fst (setCurrentUser e U s)) = Some (UserObject U) \<and>
   currentUser e' (fst (setCurrentUser e U s)) =
     (fst (setCurrentUser e U s), Inr (Some (UserObject U))) \<and>
   currentUserAsync e' (fst (setCurrentUser e U s)) =
     (fst (setCurrentUser e U s), Resolved (Some (UserObject U))) \<and>
   (setItemAsync_outcome e = Pending \<longrightarrow>
      snd (setCurrentUser e U s) = Pending \<and> disk (fst (setCurrentUser e U s)) = disk s)"
  by (simp add: setCurrentUser_cache currentUser_cached currentUserAsync_cached
      setCurrentUser_pending)

theorem setCurrentUser_read_your_writes_witness:
  "setItemAsync_outcome (sample_env True Pending Pending) = Pending \<and>
   snd (setCurrentUser (sample_env True Pending Pending) 7 (sample_state None)) = Pending \<and>
   disk (fst (setCurrentUser (sample_env True Pending Pending) 7 (sample_state None)))
     ''Parse/app/currentUser'' = None \<and>
   snd (currentUser (sample_env True Pending Pending)
          (fst (setCurrentUser (sample_env True Pending Pending) 7 (sample_state None)))) =
     Inr (Some (UserObject 7))"
proof -
  have a: "setItemAsync_outcome (sample_env True Pending Pending) = Pending"
    by (simp add: sample_defs)
  have b: "disk (sample_state None) ''Parse/app/currentUser'' = None"
    by (simp add: sample_defs)
  from a b setCurrentUser_read_your_writes
    [of "sample_env True Pending Pending" 7 "sample_state None" "sample_env True Pending Pending"]
  show ?thesis by simp
qed

subsection \<open>Disabled current user\<close>

text \<open>
  Claim C9. While \<open>canUseCurrentUser\<close> is false, \<open>ParseUser.current\<close> returns
  \<open>null\<close> and \<open>ParseUser.currentAsync\<close> a promise resolved with \<open>null\<close>,
  \<open>ParseUser.become\<close> and \<open>ParseUser.logOut\<close> raise an error, and all four leave the
  state unchanged: no store access, no request. \<open>canUseCurrentUser\<close> is false after
  \<open>disableUnsafeCurrentUser\<close> and when the module is loaded with \<open>IS_NODE\<close> set.
\<close>

theorem current_user_disabled:
  "(\<not> canUseCurrentUser s \<longrightarrow>
      ParseUser_current e s = (s, Inr None) \<and>
      ParseUser_currentAsync e s = (s, Resolved None) \<and>
      ParseUser_become e sessionToken options s =
        (s, Inl (Error ''It is not memory-safe to become a user in a server environment'')) \<and>
      ParseUser_logOut e s =
        (s, Inl (Error ''There is no current user user on a node.js server environment.''))) \<and>
   \<not> canUseCurrentUser (disableUnsafeCurrentUser s) \<and>
   \<not> canUseCurrentUser (module_init True stored)"
  by (simp add: ParseUser_current_def ParseUser_currentAsync_def ParseUser_become_def
      ParseUser_logOut_def disableUnsafeCurrentUser_def module_init_def)

theorem current_user_disabled_witness:
  "\<not> canUseCurrentUser (disableUnsafeCurrentUser (sample_state (Some ''{}''))) \<and>
   ParseUser_current (sample_env False (Resolved ()) Pending)
       (disableUnsafeCurrentUser (sample_state (Some ''{}''))) =
     (disableUnsafeCurrentUser (sample_state (Some ''{}'')), Inr None) \<and>
   ParseUser_currentAsync (sample_env False (Resolved ()) Pending)
       (disableUnsafeCurrentUser (sample_state (Some ''{}''))) =
     (disableUnsafeCurrentUser (sample_state (Some ''{}'')), Resolved None) \<and>
   snd (ParseUser_become (sample_env False (Resolved ()) Pending) (JStr ''r:abc'') []
          (disableUnsafeCurrentUser (sample_state (Some ''{}'')))) =
     Inl (Error ''It is not memory-safe to become a user in a server environment'') \<and>
   snd (ParseUser_logOut (sample_env False (Resolved ()) Pending)
          (disableUnsafeCurrentUser (sample_state (Some ''{}'')))) =
     Inl (Error ''There is no current user user on a node.js server environment.'')"
proof -
  have a: "\<not> canUseCurrentUser (disableUnsafeCurrentUser (sample_state (Some ''{}'')))"
    by (simp add: disableUnsafeCurrentUser_def)
  from a current_user_disabled
    [of "disableUnsafeCurrentUser (sample_state (Some ''{}''))"
        "sample_env False (Resolved ()) Pending" "JStr ''r:abc''" "[]"]
  show ?thesis by simp
qed

subsection \<open>Legacy field names\<close>

lemma property_update:
  "property (AList.update k v d) k' = (if k' = k then v else property d k')"
  by (simp add: property_def update_conv')

lemma property_delete:
  "property (AList.delete k d) k' = (if k' = k then JUndefined else property d k')"
  by (simp add: property_def delete_conv')

lemma hasOwnProperty_update:
  "hasOwnProperty (AList.update k v d) k' = (k' = k \<or> hasOwnProperty d k')"
  by (simp add: hasOwnProperty_def update_conv')

lemma hasOwnProperty_delete:
  "hasOwnProperty (AList.delete k d) k' = (k' \<noteq> k \<and> hasOwnProperty d k')"
  by (simp add: hasOwnProperty_def delete_conv')

lemma legacy_fields_id:
  "truthy (property d ''_id'') \<Longrightarrow>
   property (legacy_fields d) ''objectId'' = property d ''_id'' \<and>
   \<not> hasOwnProperty (legacy_fields d) ''_id''"
  by (simp add: legacy_fields_def strict_neq_def Let_def property_update property_delete
      hasOwnProperty_update hasOwnProperty_delete)

lemma legacy_fields_sessionToken:
  "truthy (property d ''_sessionToken'') \<Longrightarrow>
   property (legacy_fields d) ''sessionToken'' = property d ''_sessionToken'' \<and>
   \<not> hasOwnProperty (legacy_fields d) ''_sessionToken''"
  by (simp add: legacy_fields_def strict_neq_def Let_def property_update property_delete
      hasOwnProperty_update hasOwnProperty_delete)

lemma legacy_fields_falsy_id:
  "\<not> truthy (property d ''_id'') \<Longrightarrow> map_of (legacy_fields d) ''_id'' = map_of d ''_id''"
  by (simp add: legacy_fields_def Let_def property_update property_delete
      update_conv' delete_conv')

lemma legacy_fields_falsy_sessionToken:
  "\<not> truthy (property d ''_sessionToken'') \<Longrightarrow>
   map_of (legacy_fields d) ''_sessionToken'' = map_of d ''_sessionToken''"
  by (simp add: legacy_fields_def Let_def property_update property_delete
      update_conv' delete_conv')

text \<open>
  Both read paths hand \<open>legacy_fields d\<close> to \<open>ParseObject.fromJSON\<close> and put what it
  builds in the cache, whatever the class of the object.
\<close>

lemma currentUser_loads:
  assumes "currentUserCache s = None" "\<not> currentUserCacheMatchesDisk s" "\<not> Storage_async e"
    and "disk s (Storage_generatePath e CURRENT_USER_KEY) = Some text" "text \<noteq> []"
    and "JSON_parse e text = Inr (ParsedObject d)"
  shows "take 3 (drop (length (trace s)) (trace (fst (currentUser e s)))) =
           [StoreRead (Storage_generatePath e CURRENT_USER_KEY),
            FromJSON (built_object e (legacy_fields d) (nextRef s)) (legacy_fields d),
            Dispatch (Actions_set (Some (built_object e (legacy_fields d) (nextRef s)))) None]"
proof (cases "builds_user e (legacy_fields d)")
  case True
  from currentUser_snapshot_stored [OF assms True] True show ?thesis
    by (simp add: built_object_def)
next
  case False
  from currentUser_other_stored [OF assms False] False show ?thesis
    by (simp add: built_object_def)
qed

lemma currentUserAsync_loads:
  assumes "currentUserCache s = None" "\<not> currentUserCacheMatchesDisk s"
    and "getItemAsync_outcome e = Resolved ()"
    and "disk s (Storage_generatePath e CURRENT_USER_KEY) = Some text" "text \<noteq> []"
    and "JSON_parse e text = Inr (ParsedObject d)"
  shows "take 3 (drop (length (trace s)) (trace (fst (currentUserAsync e s)))) =
           [StoreRead (Storage_generatePath e CURRENT_USER_KEY),
            FromJSON (built_object e (legacy_fields d) (nextRef s)) (legacy_fields d),
            Dispatch (Actions_set (Some (built_object e (legacy_fields d) (nextRef s)))) None]"
proof -
  let ?e = "e\<lparr>Storage_async := False\<rparr>"
  have "take 3 (drop (length (trace s)) (trace (fst (currentUser ?e s)))) =
           [StoreRead (Storage_generatePath ?e CURRENT_USER_KEY),
            FromJSON (built_object ?e (legacy_fields d) (nextRef s)) (legacy_fields d),
            Dispatch (Actions_set (Some (built_object ?e (legacy_fields d) (nextRef s)))) None]"
    using assms by (intro currentUser_loads) simp_all
  then show ?thesis
    by (simp add: currentUserAsync_resolved [OF assms(3)] built_object_def builds_user_def)
qed

text \<open>
  Claim C6, as amended. For every stored snapshot \<open>d\<close> that \<open>currentUser\<close> or
  \<open>currentUserAsync\<close> loads, the object is built from \<open>legacy_fields d\<close>, in which
  a legacy \<open>_id\<close> with a truthy value has become \<open>objectId\<close> (whatever \<open>objectId\<close>
  held) and is gone, and a legacy \<open>_sessionToken\<close> with a truthy value has become
  \<open>sessionToken\<close> and is gone. A legacy field whose value is falsy (\<open>null\<close>,
  \<open>false\<close>, \<open>0\<close>, the empty string) is left as it is.
\<close>

theorem legacy_fields_renamed:
  "(truthy (property d ''_id'') \<longrightarrow>
      property (legacy_fields d) ''objectId'' = property d ''_id'' \<and>
      \<not> hasOwnProperty (legacy_fields d) ''_id'') \<and>
   (truthy (property d ''_sessionToken'') \<longrightarrow>
      property (legacy_fields d) ''sessionToken'' = property d ''_sessionToken'' \<and>
      \<not> hasOwnProperty (legacy_fields d) ''_sessionToken'') \<and>
   (\<not> truthy (property d ''_id'') \<longrightarrow> map_of (legacy_fields d) ''_id'' = map_of d ''_id'') \<and>
   (\<not> truthy (property d ''_sessionToken'') \<longrightarrow>
      map_of (legacy_fields d) ''_sessionToken'' = map_of d ''_sessionToken'') \<and>
   (currentUserCache s = None \<and> \<not> currentUserCacheMatchesDisk s \<and> \<not> Storage_async e \<and>
    disk s (Storage_generatePath e CURRENT_USER_KEY) = Some text \<and> text \<noteq> [] \<and>
    JSON_parse e text = Inr (ParsedObject d) \<longrightarrow>
      take 3 (drop (length (trace s)) (trace (fst (currentUser e s)))) =
        [StoreRead (Storage_generatePath e CURRENT_USER_KEY),
         FromJSON (built_object e (legacy_fields d) (nextRef s)) (legacy_fields d),
         Dispatch (Actions_set (Some (built_object e (legacy_fields d) (nextRef s)))) None]) \<and>
   (currentUserCache s = None \<and> \<not> currentUserCacheMatchesDisk s \<and>
    getItemAsync_outcome e = Resolved () \<and>
    disk s (Storage_generatePath e CURRENT_USER_KEY) = Some text \<and> text \<noteq> [] \<and>
    JSON_parse e text = Inr (ParsedObject d) \<longrightarrow>
      take 3 (drop (length (trace s)) (trace (fst (currentUserAsync e s)))) =
        [StoreRead (Storage_generatePath e CURRENT_USER_KEY),
         FromJSON (built_object e (legacy_fields d) (nextRef s)) (legacy_fields d),
         Dispatch (Actions_set (Some (built_object e (legacy_fields d) (nextRef s)))) None])"
  by (intro conjI impI; (elim conjE)?)
    (simp_all add: legacy_fields_id legacy_fields_sessionToken legacy_fields_falsy_id
      legacy_fields_falsy_sessionToken currentUser_loads currentUserAsync_loads)

theorem legacy_fields_renamed_witness:
  "truthy (property [(''_id'', JStr ''u1''), (''_sessionToken'', JStr ''r:abc''),
                     (''objectId'', JStr ''old'')] ''_id'') \<and>
   truthy (property [(''_id'', JStr ''u1''), (''_sessionToken'', JStr ''r:abc''),
                     (''objectId'', JStr ''old'')] ''_sessionToken'') \<and>
   legacy_fields [(''_id'', JStr ''u1''), (''_sessionToken'', JStr ''r:abc''),
                  (''objectId'', JStr ''old'')] =
     [(''objectId'', JStr ''u1''), (''className'', JStr ''_User''),
      (''sessionToken'', JStr ''r:abc'')] \<and>
   property (legacy_fields [(''_id'', JStr ''u1''), (''_sessionToken'', JStr ''r:abc''),
                            (''objectId'', JStr ''old'')]) ''objectId'' = JStr ''u1'' \<and>
   \<not> truthy (property [(''_id'', JNull), (''_sessionToken'', JNum 0)] ''_id'') \<and>
   \<not> truthy (property [(''_id'', JNull), (''_sessionToken'', JNum 0)] ''_sessionToken'') \<and>
   map_of (legacy_fields [(''_id'', JNull), (''_sessionToken'', JNum 0)]) ''_id'' = Some JNull \<and>
   take 3 (drop (length (trace (sample_state (Some ''{\"_id\":\"u1\",\"_sessionToken\":\"r:abc\"}''))))
     (trace (fst (currentUser (sample_env False (Resolved ()) Pending)
        (sample_state (Some ''{\"_id\":\"u1\",\"_sessionToken\":\"r:abc\"}'')))))) =
     [StoreRead ''Parse/app/currentUser'',
      FromJSON (UserObject 0) [(''className'', JStr ''_User''), (''objectId'', JStr ''u1''),
                  (''sessionToken'', JStr ''r:abc'')],
      Dispatch (Actions_set (Some (UserObject 0))) None] \<and>
   take 3 (drop (length (trace (sample_state (Some ''{\"_id\":\"u1\",\"_sessionToken\":\"r:abc\"}''))))
     (trace (fst (currentUserAsync (sample_env True (Resolved ()) Pending)
        (sample_state (Some ''{\"_id\":\"u1\",\"_sessionToken\":\"r:abc\"}'')))))) =
     [StoreRead ''Parse/app/currentUser'',
      FromJSON (UserObject 0) [(''className'', JStr ''_User''), (''objectId'', JStr ''u1''),
                  (''sessionToken'', JStr ''r:abc'')],
      Dispatch (Actions_set (Some (UserObject 0))) None]"
proof -
  let ?text = "''{\"_id\":\"u1\",\"_sessionToken\":\"r:abc\"}''"
  let ?d = "[(''_id'', JStr ''u1''), (''_sessionToken'', JStr ''r:abc'')]"
  let ?both = "[(''_id'', JStr ''u1''), (''_sessionToken'', JStr ''r:abc''),
              (''objectId'', JStr ''old'')]"
  let ?falsy = "[(''_id'', JNull), (''_sessionToken'', JNum 0)]"
  have t1: "truthy (property ?both ''_id'')" and t2: "truthy (property ?both ''_sessionToken'')"
    by (simp_all add: property_def)
  have f1: "\<not> truthy (property ?falsy ''_id'')" and f2: "\<not> truthy (property ?falsy ''_sessionToken'')"
    by (simp_all add: property_def)
  have l1: "legacy_fields ?both =
      [(''objectId'', JStr ''u1''), (''className'', JStr ''_User''),
       (''sessionToken'', JStr ''r:abc'')]"
    by (simp add: legacy_fields_def property_def strict_neq_def Let_def)
  have l: "legacy_fields ?d =
      [(''className'', JStr ''_User''), (''objectId'', JStr ''u1''),
       (''sessionToken'', JStr ''r:abc'')]"
    by (simp add: legacy_fields_def property_def strict_neq_def Let_def)
  have sync: "currentUserCache (sample_state (Some ?text)) = None \<and>
      \<not> currentUserCacheMatchesDisk (sample_state (Some ?text)) \<and>
      \<not> Storage_async (sample_env False (Resolved ()) Pending) \<and>
      disk (sample_state (Some ?text))
        (Storage_generatePath (sample_env False (Resolved ()) Pending) CURRENT_USER_KEY) =
        Some ?text \<and> ?text \<noteq> [] \<and>
      JSON_parse (sample_env False (Resolved ()) Pending) ?text = Inr (ParsedObject ?d)"
    by (simp add: sample_defs)
  have async: "currentUserCache (sample_state (Some ?text)) = None \<and>
      \<not> currentUserCacheMatchesDisk (sample_state (Some ?text)) \<and>
      getItemAsync_outcome (sample_env True (Resolved ()) Pending) = Resolved () \<and>
      disk (sample_state (Some ?text))
        (Storage_generatePath (sample_env True (Resolved ()) Pending) CURRENT_USER_KEY) =
        Some ?text \<and> ?text \<noteq> [] \<and>
      JSON_parse (sample_env True (Resolved ()) Pending) ?text = Inr (ParsedObject ?d)"
    by (simp add: sample_defs)
  note c1 = legacy_fields_renamed [THEN conjunct1, rule_format]
  note c3 = legacy_fields_renamed [THEN conjunct2, THEN conjunct2, THEN conjunct1, rule_format]
  note c5 = legacy_fields_renamed [THEN conjunct2, THEN conjunct2, THEN conjunct2, THEN conjunct2,
      THEN conjunct1, rule_format]
  note c6 = legacy_fields_renamed [THEN conjunct2, THEN conjunct2, THEN conjunct2, THEN conjunct2,
      THEN conjunct2, rule_format]
  have 1: "property (legacy_fields ?both) ''objectId'' = JStr ''u1''"
    using c1 [OF t1] by (simp add: property_def)
  have 2: "map_of (legacy_fields ?falsy) ''_id'' = Some JNull"
    using c3 [OF f1] by simp
  have 3: "take 3 (drop (length (trace (sample_state (Some ?text))))
     (trace (fst (currentUser (sample_env False (Resolved ()) Pending)
        (sample_state (Some ?text)))))) =
     [StoreRead ''Parse/app/currentUser'',
      FromJSON (UserObject 0) [(''className'', JStr ''_User''), (''objectId'', JStr ''u1''),
                  (''sessionToken'', JStr ''r:abc'')],
      Dispatch (Actions_set (Some (UserObject 0))) None]"
    unfolding c5 [OF sync] l
    by (simp add: built_object_def builds_user_def property_def sample_defs)
  have 4: "take 3 (drop (length (trace (sample_state (Some ?text))))
     (trace (fst (currentUserAsync (sample_env True (Resolved ()) Pending)
        (sample_state (Some ?text)))))) =
     [StoreRead ''Parse/app/currentUser'',
      FromJSON (UserObject 0) [(''className'', JStr ''_User''), (''objectId'', JStr ''u1''),
                  (''sessionToken'', JStr ''r:abc'')],
      Dispatch (Actions_set (Some (UserObject 0))) None]"
    unfolding c6 [OF async] l
    by (simp add: built_object_def builds_user_def property_def sample_defs)
  from t1 t2 f1 f2 l1 1 2 3 4 show ?thesis by (intro conjI)
qed

text \<open>
  Claim C6 as stated fails for a snapshot whose legacy fields hold the empty string:
  the tests \<open>if (userData._id)\<close> and \<open>if (userData._sessionToken)\<close> are false, no
  \<open>objectId\<close> or \<open>sessionToken\<close> is written, and both legacy keys are in the data
  that \<open>currentUser\<close> hands to \<open>ParseObject.fromJSON\<close>.
\<close>

theorem legacy_fields_renamed_counterexample:
  "sample_parse ''{\"_id\":\"\",\"_sessionToken\":\"\"}'' =
     Inr (ParsedObject [(''_id'', JStr ''''), (''_sessionToken'', JStr '''')]) \<and>
   trace (fst (currentUser (sample_env False (Resolved ()) Pending)
      (sample_state (Some ''{\"_id\":\"\",\"_sessionToken\":\"\"}'')))) =
     [StoreRead ''Parse/app/currentUser'',
      FromJSON (UserObject 0) [(''_id'', JStr ''''), (''_sessionToken'', JStr ''''),
                  (''className'', JStr ''_User'')],
      Dispatch (Actions_set (Some (UserObject 0))) None, SynchronizeAllAuthData 0] \<and>
   hasOwnProperty (legacy_fields [(''_id'', JStr ''''), (''_sessionToken'', JStr '''')]) ''_id'' \<and>
   hasOwnProperty (legacy_fields [(''_id'', JStr ''''), (''_sessionToken'', JStr '''')])
     ''_sessionToken'' \<and>
   \<not> hasOwnProperty (legacy_fields [(''_id'', JStr ''''), (''_sessionToken'', JStr '''')])
     ''objectId'' \<and>
   \<not> hasOwnProperty (legacy_fields [(''_id'', JStr ''''), (''_sessionToken'', JStr '''')])
     ''sessionToken''"
  by (simp add: currentUser_def loadUserData_def no_userData_def legacy_fields_def
      built_object_def builds_user_def property_def hasOwnProperty_def strict_neq_def
      io_defs cache_defs sample_defs Let_def)

subsection \<open>Logging out\<close>


text \<open>
  The state of \<open>logOut\<close> once its first read has resolved with \<open>null\<close> or a user,
  when no call on the store or the network raises.
\<close>

lemma logOut_after_read:
  assumes "currentUserAsync e s = (s0, Resolved cu)" "\<forall>n. cu \<noteq> Some (OtherObject n)"
    and "returned (removeItemAsync_outcome e)" "returned (request_outcome e)"
  shows "currentUserCache (fst (logOut e s)) = None"
    and "currentUserCacheMatchesDisk (fst (logOut e s))"
    and "StoreRemove (Storage_generatePath e CURRENT_USER_KEY) \<in> set (trace (fst (logOut e s)))"
    and "removeItemAsync_outcome e = Resolved () \<Longrightarrow>
         disk (fst (logOut e s)) (Storage_generatePath e CURRENT_USER_KEY) = None"
proof -
  consider (absent) "cu = None" | (user) u where "cu = Some (UserObject u)"
    using assms(2) by (cases cu) (auto intro: objref.exhaust)
  then have "currentUserCache (fst (logOut e s)) = None \<and>
      currentUserCacheMatchesDisk (fst (logOut e s)) \<and>
      StoreRemove (Storage_generatePath e CURRENT_USER_KEY) \<in> set (trace (fst (logOut e s))) \<and>
      (removeItemAsync_outcome e = Resolved () \<longrightarrow>
         disk (fst (logOut e s)) (Storage_generatePath e CURRENT_USER_KEY) = None)"
  proof cases
    case absent
    with assms(1,3) show ?thesis
      by (cases "removeItemAsync_outcome e")
        (simp_all add: logOut_def promise_then_def io_defs cache_defs Let_def)
  next
    case user
    with assms(1,3,4) show ?thesis
      by (cases "removeItemAsync_outcome e"; cases "request_outcome e")
        (simp_all add: logOut_def logOut_request_def logOut_locally_def promise_then_def
          io_defs cache_defs Let_def)
  qed
  then show "currentUserCache (fst (logOut e s)) = None"
    and "currentUserCacheMatchesDisk (fst (logOut e s))"
    and "StoreRemove (Storage_generatePath e CURRENT_USER_KEY) \<in> set (trace (fst (logOut e s)))"
    and "removeItemAsync_outcome e = Resolved () \<Longrightarrow>
         disk (fst (logOut e s)) (Storage_generatePath e CURRENT_USER_KEY) = None"
    by simp_all
qed

text \<open>
  Claim C3, as amended. From every starting state in which the read of the current user
  that \<open>logOut\<close> begins with returns \<open>null\<close> or a user, and with a store and a
  network whose calls do not raise, \<open>logOut\<close> asks the store to remove the persisted
  entry (the entry is gone once the store has performed the removal), clears the cache
  and sets \<open>currentUserCacheMatchesDisk\<close>; a read in the state it leaves, by
  \<open>currentUser\<close> or \<open>currentUserAsync\<close>, returns absent and leaves that state, its
  trace of store accesses included, unchanged.
\<close>

theorem logOut_clears_identity:
  assumes "snd (currentUserAsync e s) = Resolved cu" "\<forall>n. cu \<noteq> Some (OtherObject n)"
    and "returned (removeItemAsync_outcome e)" "returned (request_outcome e)"
  shows "StoreRemove (Storage_generatePath e CURRENT_USER_KEY) \<in> set (trace (fst (logOut e s))) \<and>
         (removeItemAsync_outcome e = Resolved () \<longrightarrow>
            disk (fst (logOut e s)) (Storage_generatePath e CURRENT_USER_KEY) = None) \<and>
         currentUserCache (fst (logOut e s)) = None \<and>
         currentUserCacheMatchesDisk (fst (logOut e s)) \<and>
         currentUser e' (fst (logOut e s)) = (fst (logOut e s), Inr None) \<and>
         currentUserAsync e' (fst (logOut e s)) = (fst (logOut e s), Resolved None)"
proof -
  from assms(1) have read: "currentUserAsync e s = (fst (currentUserAsync e s), Resolved cu)"
    by (metis prod.collapse)
  note after = logOut_after_read [OF read assms(2,3,4)]
  show ?thesis
    using after by (simp add: currentUser_absent currentUserAsync_absent)
qed

theorem logOut_clears_identity_witness:
  "snd (currentUserAsync (sample_env True (Resolved ()) Pending)
          (sample_state (Some ''{\"_id\":\"u1\",\"_sessionToken\":\"r:abc\"}''))) =
     Resolved (Some (UserObject 0)) \<and>
   returned (removeItemAsync_outcome (sample_env True (Resolved ()) Pending)) \<and>
   returned (request_outcome (sample_env True (Resolved ()) Pending)) \<and>
   removeItemAsync_outcome (sample_env True (Resolved ()) Pending) = Resolved () \<and>
   disk (fst (logOut (sample_env True (Resolved ()) Pending)
          (sample_state (Some ''{\"_id\":\"u1\",\"_sessionToken\":\"r:abc\"}''))))
     ''Parse/app/currentUser'' = None \<and>
   currentUserCache (fst (logOut (sample_env True (Resolved ()) Pending)
          (sample_state (Some ''{\"_id\":\"u1\",\"_sessionToken\":\"r:abc\"}'')))) = None \<and>
   snd (currentUser (sample_env True (Resolved ()) Pending)
     (fst (logOut (sample_env True (Resolved ()) Pending)
          (sample_state (Some ''{\"_id\":\"u1\",\"_sessionToken\":\"r:abc\"}''))))) = Inr None"
proof -
  let ?text = "''{\"_id\":\"u1\",\"_sessionToken\":\"r:abc\"}''"
  let ?e = "sample_env True (Resolved ()) Pending"
  have read: "snd (currentUserAsync ?e (sample_state (Some ?text))) =
      Resolved (Some (UserObject 0))"
    by (simp add: currentUserAsync_def loadUserData_def no_userData_def legacy_fields_def
        built_object_def builds_user_def property_def strict_neq_def promise_then_def
        io_defs cache_defs sample_defs Let_def)
  have user: "\<forall>n. Some (UserObject 0) \<noteq> Some (OtherObject n)"
    by simp
  have calls: "returned (removeItemAsync_outcome ?e)" "returned (request_outcome ?e)"
    by (simp_all add: sample_defs)
  have removed: "removeItemAsync_outcome ?e = Resolved ()"
    and path: "Storage_generatePath ?e CURRENT_USER_KEY = ''Parse/app/currentUser''"
    by (simp_all add: sample_defs)
  from read calls removed logOut_clears_identity [OF read user calls, of ?e] path
  show ?thesis by simp
qed

text \<open>
  Claim C3 as stated fails from two starting states with the cache empty and
  \<open>currentUserCacheMatchesDisk\<close> false, on a store that performs what it is asked.
  When the store holds a snapshot of the class \<open>Foo\<close>, the read that \<open>logOut\<close>
  begins with puts the object in the cache and raises; the callback that removes the
  entry never runs; the entry stays, the cache holds the object, and a read after the
  logout returns it. When the store holds a text that \<open>JSON.parse\<close> rejects, the read
  raises as well and the entry stays.
\<close>

theorem logOut_clears_identity_counterexample:
  "currentUserCache (sample_state (Some ''{\"className\":\"Foo\"}'')) = None \<and>
   \<not> currentUserCacheMatchesDisk (sample_state (Some ''{\"className\":\"Foo\"}'')) \<and>
   removeItemAsync_outcome (sample_env False (Resolved ()) Pending) = Resolved () \<and>
   snd (logOut (sample_env False (Resolved ()) Pending)
          (sample_state (Some ''{\"className\":\"Foo\"}''))) = Raised TypeError \<and>
   trace (fst (logOut (sample_env False (Resolved ()) Pending)
          (sample_state (Some ''{\"className\":\"Foo\"}'')))) =
     [StoreRead ''Parse/app/currentUser'',
      FromJSON (OtherObject 0) [(''className'', JStr ''Foo'')],
      Dispatch (Actions_set (Some (OtherObject 0))) None] \<and>
   disk (fst (logOut (sample_env False (Resolved ()) Pending)
          (sample_state (Some ''{\"className\":\"Foo\"}''))))
     ''Parse/app/currentUser'' = Some ''{\"className\":\"Foo\"}'' \<and>
   currentUserCache (fst (logOut (sample_env False (Resolved ()) Pending)
          (sample_state (Some ''{\"className\":\"Foo\"}'')))) = Some (OtherObject 0) \<and>
   snd (currentUser (sample_env False (Resolved ()) Pending)
     (fst (logOut (sample_env False (Resolved ()) Pending)
          (sample_state (Some ''{\"className\":\"Foo\"}''))))) = Inr (Some (OtherObject 0)) \<and>
   sample_parse ''{'' = Inl SyntaxError \<and>
   snd (logOut (sample_env False (Resolved ()) Pending) (sample_state (Some ''{''))) =
     Raised SyntaxError \<and>
   trace (fst (logOut (sample_env False (Resolved ()) Pending) (sample_state (Some ''{'')))) =
     [StoreRead ''Parse/app/currentUser''] \<and>
   disk (fst (logOut (sample_env False (Resolved ()) Pending) (sample_state (Some ''{''))))
     ''Parse/app/currentUser'' = Some ''{''"
  by (simp add: logOut_def currentUserAsync_def currentUser_def loadUserData_def
      no_userData_def legacy_fields_def built_object_def builds_user_def property_def
      promise_then_def io_defs cache_defs sample_defs Let_def)





subsection \<open>Cache updates go through the dispatcher\<close>

lemma cache_after_append:
  "cache_after c (xs @ ys) =
     (case cache_after c xs of None \<Rightarrow> None | Some c' \<Rightarrow> cache_after c' ys)"
  by (induction c xs rule: cache_after.induct) auto

lemma dispatched_first_refl: "dispatched_first s s"
  by (simp add: dispatched_first_def)

lemma dispatched_first_trans:
  assumes "dispatched_first s t" "dispatched_first t u"
  shows "dispatched_first s u"
proof -
  obtain xs where xs: "trace t = trace s @ xs"
    using assms(1) by (metis append_take_drop_id dispatched_first_def)
  obtain ys where ys: "trace u = trace t @ ys"
    using assms(2) by (metis append_take_drop_id dispatched_first_def)
  from assms xs ys show ?thesis
    by (simp add: dispatched_first_def cache_after_append)
qed

lemma dispatched_first_currentUserCache_set:
  "dispatched_first s (currentUserCache_set v s)"
  by (simp add: dispatched_first_def cache_defs io_defs)

lemma dispatched_first_updateUserOnDisk: "dispatched_first s (fst (updateUserOnDisk e u s))"
  by (simp add: dispatched_first_def updateUserOnDisk_def promise_then_def io_defs Let_def
      split: promise.splits)

lemma dispatched_first_setCurrentUser: "dispatched_first s (fst (setCurrentUser e u s))"
  by (simp add: dispatched_first_def setCurrentUser_def updateUserOnDisk_def promise_then_def
      io_defs cache_defs Let_def split: promise.splits)

lemma dispatched_first_currentUser: "dispatched_first s (fst (currentUser e s))"
  by (simp add: dispatched_first_def currentUser_def loadUserData_def io_defs cache_defs Let_def
      split: option.splits sum.splits parsed.splits objref.splits)

lemma dispatched_first_currentUserAsync: "dispatched_first s (fst (currentUserAsync e s))"
  by (simp add: dispatched_first_def currentUserAsync_def loadUserData_def promise_then_def
      io_defs cache_defs Let_def
      split: promise.splits option.splits sum.splits parsed.splits objref.splits)

lemma dispatched_first_logOut_locally: "dispatched_first s (logOut_locally u s)"
  by (simp add: dispatched_first_def logOut_locally_def io_defs cache_defs Let_def)

lemma dispatched_first_logOut_request:
  "dispatched_first s (fst (logOut_request e currentSession removed s))"
  by (simp add: dispatched_first_def logOut_request_def promise_then_def io_defs Let_def
      split: promise.splits)

lemma dispatched_first_logOut: "dispatched_first s (fst (logOut e s))"
proof (cases "currentUserAsync e s")
  case (Pair s0 current)
  have read: "dispatched_first s s0"
    using dispatched_first_currentUserAsync [of s e] Pair by simp
  have removal: "\<And>t. dispatched_first t
      (fst (Storage_removeItemAsync e (Storage_generatePath e CURRENT_USER_KEY) t))"
    by (simp add: dispatched_first_def io_defs split: promise.splits)
  have absent: "\<And>t. dispatched_first t
      (currentUserCache_set None (t\<lparr>currentUserCacheMatchesDisk := True\<rparr>))"
    by (simp add: dispatched_first_def io_defs cache_defs)
  note plain = dispatched_first_logOut_locally
  have later: "\<And>t p u c. dispatched_first t (fst (logOut_request e c p (logOut_locally u t)))"
    by (rule dispatched_first_trans [OF dispatched_first_logOut_locally
          dispatched_first_logOut_request])
  have sooner: "\<And>t p u c. dispatched_first t
      (fst (case logOut_request e c p t of
              (s3, Raised x) \<Rightarrow> (s3, Raised x)
            | (s3, promise) \<Rightarrow> (logOut_locally u s3, promise)))"
  proof -
    fix t p u c
    note request = dispatched_first_logOut_request [of t e c p]
    note both = dispatched_first_trans [OF request dispatched_first_logOut_locally]
    show "dispatched_first t
      (fst (case logOut_request e c p t of
              (s3, Raised x) \<Rightarrow> (s3, Raised x)
            | (s3, promise) \<Rightarrow> (logOut_locally u s3, promise)))"
      using request both [of u]
      by (cases "logOut_request e c p t") (simp split: promise.splits)
  qed
  have rest: "dispatched_first s0 (fst (logOut e s))"
  proof (cases current)
    case (Resolved cu)
    obtain s2 removed where removed:
      "Storage_removeItemAsync e (Storage_generatePath e CURRENT_USER_KEY) s0 = (s2, removed)"
      by (cases "Storage_removeItemAsync e (Storage_generatePath e CURRENT_USER_KEY) s0")
    have step: "dispatched_first s0 s2"
      using removal [of s0] removed by simp
    have "dispatched_first s2 (fst (logOut e s))"
      using Pair Resolved removed absent plain later sooner
      by (simp add: logOut_def promise_then_def Let_def dispatched_first_refl
          split: promise.splits option.splits objref.splits)
    with step show ?thesis
      by (rule dispatched_first_trans)
  qed (simp_all add: Pair logOut_def promise_then_def dispatched_first_refl)
  from read rest show ?thesis
    by (rule dispatched_first_trans)
qed

lemma dispatched_first_become: "dispatched_first s (fst (become e options s))"
  by (simp add: dispatched_first_def become_def setCurrentUser_def updateUserOnDisk_def
      promise_then_def io_defs cache_defs Let_def split: promise.splits)

lemma dispatched_first_ParseUser_current: "dispatched_first s (fst (ParseUser_current e s))"
  by (simp add: ParseUser_current_def dispatched_first_refl dispatched_first_currentUser)

lemma fst_isCurrent: "fst (isCurrent e u s) = fst (ParseUser_current e s)"
  by (simp add: isCurrent_def split: prod.splits sum.splits)

lemma dispatched_first_isCurrent: "dispatched_first s (fst (isCurrent e u s))"
  by (simp add: fst_isCurrent dispatched_first_ParseUser_current)

lemma dispatched_first_ParseUser_save:
  "dispatched_first s (fst (ParseUser_save e u attrs options s))"
proof -
  let ?s1 = "record_call (Save u attrs options) s"
  have a: "dispatched_first s ?s1"
    by (simp add: dispatched_first_def io_defs)
  have b: "dispatched_first ?s1 (fst (isCurrent e u ?s1))"
    by (rule dispatched_first_isCurrent)
  have c: "dispatched_first (fst (isCurrent e u ?s1))
             (fst (updateUserOnDisk e u (fst (isCurrent e u ?s1))))"
    by (rule dispatched_first_updateUserOnDisk)
  note ab = dispatched_first_trans [OF a b]
  note abc = dispatched_first_trans [OF ab c]
  show ?thesis
    using a ab abc
    by (auto simp add: ParseUser_save_def ParseObject_save_def promise_then_def
        split: promise.splits prod.splits sum.splits)
qed

lemma dispatched_first_signUp: "dispatched_first s (fst (signUp e u attrs options s))"
proof -
  let ?s1 = "fst (ParseUser_save e u attrs options s)"
  let ?t1 = "record_call (FinishFetch u [(''password'', JUndefined)]) ?s1"
  have a: "dispatched_first s ?s1"
    by (rule dispatched_first_ParseUser_save)
  have b: "dispatched_first ?s1 ?t1"
    by (simp add: dispatched_first_def io_defs)
  have c: "dispatched_first ?t1 (fst (setCurrentUser e u ?t1))"
    by (rule dispatched_first_setCurrentUser)
  note ab = dispatched_first_trans [OF a b]
  note abc = dispatched_first_trans [OF ab c]
  show ?thesis
    using a ab abc
    by (auto simp add: signUp_def promise_then_def dispatched_first_refl Let_def
        split: promise.splits prod.splits)
qed

lemma dispatched_first_logIn: "dispatched_first s (fst (logIn e u options s))"
  by (simp add: dispatched_first_def logIn_def setCurrentUser_def updateUserOnDisk_def
      promise_then_def io_defs cache_defs Let_def split: promise.splits)

text \<open>
  Claim C8. Every operation of the module leaves a state whose trace extends the trace
  it started from, and in the extension every change of the cache is announced: each
  \<open>Store.dispatch(Actions.set(v))\<close> is made while the cache still holds the value it
  held before, the cache then holds \<open>v\<close>, and the cache at the end is the value of the
  last dispatch (the starting value if there was none). This holds for
  \<open>setCurrentUser\<close>, both read paths, \<open>logOut\<close>, \<open>_clearCache\<close> and
  \<open>_setCurrentUserCache\<close>, and for the operations built on them.
\<close>

theorem cache_updates_dispatched_first:
  "dispatched_first s (fst (setCurrentUser e u s)) \<and>
   dispatched_first s (fst (currentUser e s)) \<and>
   dispatched_first s (fst (currentUserAsync e s)) \<and>
   dispatched_first s (fst (logOut e s)) \<and>
   dispatched_first s (clearCache s) \<and>
   dispatched_first s (setCurrentUserCache v s) \<and>
   dispatched_first s (fst (become e options s)) \<and>
   dispatched_first s (fst (signUp e u attrs options s)) \<and>
   dispatched_first s (fst (logIn e u options s)) \<and>
   dispatched_first s (fst (ParseUser_save e u attrs options s)) \<and>
   dispatched_first s (fst (updateUserOnDisk e u s)) \<and>
   dispatched_first s (fst (ParseUser_current e s)) \<and>
   dispatched_first s (fst (ParseUser_currentAsync e s)) \<and>
   dispatched_first s (fst (ParseUser_become e sessionToken options s)) \<and>
   dispatched_first s (fst (ParseUser_logOut e s)) \<and>
   dispatched_first s (enableUnsafeCurrentUser s) \<and>
   dispatched_first s (disableUnsafeCurrentUser s)"
proof -
  have clear: "dispatched_first s (clearCache s)"
    by (simp add: dispatched_first_def clearCache_def cache_defs io_defs)
  have set: "dispatched_first s (setCurrentUserCache v s)"
    by (simp add: setCurrentUserCache_def dispatched_first_currentUserCache_set)
  have cur: "dispatched_first s (fst (ParseUser_current e s))"
    by (rule dispatched_first_ParseUser_current)
  have cura: "dispatched_first s (fst (ParseUser_currentAsync e s))"
    by (simp add: ParseUser_currentAsync_def dispatched_first_refl
        dispatched_first_currentUserAsync)
  have bec: "dispatched_first s (fst (ParseUser_become e sessionToken options s))"
    by (simp add: ParseUser_become_def dispatched_first_refl dispatched_first_become
        Let_def split: prod.splits)
      (metis dispatched_first_become fst_conv)
  have out: "dispatched_first s (fst (ParseUser_logOut e s))"
    by (simp add: ParseUser_logOut_def dispatched_first_refl split: prod.splits)
      (metis dispatched_first_logOut fst_conv)
  have flags: "dispatched_first s (enableUnsafeCurrentUser s)"
    "dispatched_first s (disableUnsafeCurrentUser s)"
    by (simp_all add: dispatched_first_def enableUnsafeCurrentUser_def
        disableUnsafeCurrentUser_def)
  show ?thesis
    by (intro conjI dispatched_first_setCurrentUser dispatched_first_currentUser
        dispatched_first_currentUserAsync dispatched_first_logOut clear set
        dispatched_first_become dispatched_first_signUp dispatched_first_logIn
        dispatched_first_ParseUser_save dispatched_first_updateUserOnDisk cur cura bec out flags)
qed

text \<open>
  Logging out of a state whose store holds a snapshot dispatches twice, once for the
  user loaded and once for \<open>null\<close>; a state whose cache has changed with nothing
  dispatched is not \<open>dispatched_first\<close>.
\<close>

theorem cache_updates_dispatched_first_witness:
  "dispatched_first (sample_state (Some ''{}''))
     (fst (logOut (sample_env True (Resolved ()) Pending) (sample_state (Some ''{}'')))) \<and>
   \<not> dispatched_first (sample_state (Some ''{}''))
       ((sample_state (Some ''{}''))\<lparr>currentUserCache := Some (UserObject 1)\<rparr>) \<and>
   trace (fst (logOut (sample_env True (Resolved ()) Pending) (sample_state (Some ''{}'')))) =
     [StoreRead ''Parse/app/currentUser'',
      FromJSON (UserObject 0) [(''className'', JStr ''_User'')],
      Dispatch (Actions_set (Some (UserObject 0))) None,
      SynchronizeAllAuthData 0,
      StoreRemove ''Parse/app/currentUser'',
      LogOutWithAll 0,
      FinishFetch 0 [(''sessionToken'', JUndefined)],
      Dispatch (Actions_set None) (Some (UserObject 0)),
      Request ''POST'' ''logout'' [] [(''sessionToken'', JStr ''r:abc'')]]"
proof -
  have "trace (fst (logOut (sample_env True (Resolved ()) Pending) (sample_state (Some ''{}'')))) =
     [StoreRead ''Parse/app/currentUser'',
      FromJSON (UserObject 0) [(''className'', JStr ''_User'')],
      Dispatch (Actions_set (Some (UserObject 0))) None,
      SynchronizeAllAuthData 0,
      StoreRemove ''Parse/app/currentUser'',
      LogOutWithAll 0,
      FinishFetch 0 [(''sessionToken'', JUndefined)],
      Dispatch (Actions_set None) (Some (UserObject 0)),
      Request ''POST'' ''logout'' [] [(''sessionToken'', JStr ''r:abc'')]]"
    by (simp add: logOut_def logOut_request_def logOut_locally_def currentUserAsync_def
        loadUserData_def no_userData_def legacy_fields_def built_object_def builds_user_def
        property_def strict_neq_def getSessionToken_def promise_then_def
        io_defs cache_defs sample_defs Let_def)
  moreover have "\<not> dispatched_first (sample_state (Some ''{}''))
       ((sample_state (Some ''{}''))\<lparr>currentUserCache := Some (UserObject 1)\<rparr>)"
    by (simp add: dispatched_first_def sample_defs)
  ultimately show ?thesis
    using cache_updates_dispatched_first
      [of "sample_state (Some ''{}'')" "sample_env True (Resolved ()) Pending"]
    by blast
qed

subsection \<open>The password after signUp and logIn\<close>

lemma logIn_object:
  assumes "snd (logIn e user options s) = Resolved r"
  shows "\<exists>response. request_outcome e = Resolved response \<and>
           object_after saved user st s (fst (logIn e user options s)) =
             ObjectState_commitServerChanges (AList.update ''password'' JUndefined response)
               (ObjectState_setPendingOp ''password'' JUndefined
                  (ObjectState_setPendingOp ''username'' JUndefined st))"
  using assms
  by (cases "request_outcome e")
    (simp_all add: object_after_def logIn_def setCurrentUser_def updateUserOnDisk_def
      promise_then_def io_defs cache_defs Let_def split: promise.splits)

text \<open>
  The calls that the reads and writes of the current user add to the trace do not write
  attributes or pending operations of any object.
\<close>

lemma object_after_events:
  "trace s' = trace s @ evs \<Longrightarrow>
   object_after saved user st s s' = foldl (entity_call saved user) st evs"
  by (simp add: object_after_def)

lemma currentUser_events:
  "\<exists>evs. trace (fst (currentUser e s)) = trace s @ evs \<and>
         (\<forall>st. foldl (entity_call saved user) st evs = st)"
  by (simp add: currentUser_def loadUserData_def io_defs cache_defs Let_def
      split: option.splits sum.splits parsed.splits objref.splits)

lemma isCurrent_events:
  "\<exists>evs. trace (fst (isCurrent e u s)) = trace s @ evs \<and>
         (\<forall>st. foldl (entity_call saved user) st evs = st)"
  using currentUser_events [of e s saved user]
  by (simp add: fst_isCurrent ParseUser_current_def)

lemma updateUserOnDisk_events:
  "\<exists>evs. trace (fst (updateUserOnDisk e u s)) = trace s @ evs \<and>
         (\<forall>st. foldl (entity_call saved user) st evs = st)"
  by (simp add: updateUserOnDisk_def promise_then_def io_defs Let_def split: promise.splits)

lemma setCurrentUser_events:
  "\<exists>evs. trace (fst (setCurrentUser e u s)) = trace s @ evs \<and>
         (\<forall>st. foldl (entity_call saved user) st evs = st)"
  by (simp add: setCurrentUser_def updateUserOnDisk_def promise_then_def io_defs cache_defs
      Let_def split: promise.splits)

lemma ParseUser_save_events:
  assumes "snd (ParseUser_save e user attrs options s) = Resolved r"
  shows "\<exists>evs. trace (fst (ParseUser_save e user attrs options s)) =
                 trace s @ Save user attrs options # evs \<and>
               (\<forall>st. foldl (entity_call saved user) st evs = st)"
proof -
  let ?s1 = "record_call (Save user attrs options) s"
  let ?s2 = "fst (isCurrent e user ?s1)"
  let ?s3 = "fst (updateUserOnDisk e user ?s2)"
  obtain evs1 where evs1: "trace ?s2 = trace ?s1 @ evs1"
    "\<forall>st. foldl (entity_call saved user) st evs1 = st"
    using isCurrent_events [of e user ?s1 saved user] by blast
  obtain evs2 where evs2: "trace ?s3 = trace ?s2 @ evs2"
    "\<forall>st. foldl (entity_call saved user) st evs2 = st"
    using updateUserOnDisk_events [of e user ?s2 saved user] by blast
  have s1: "trace ?s1 = trace s @ [Save user attrs options]"
    by (simp add: io_defs)
  from assms have resolved: "save_outcome e = Resolved ()"
    by (cases "save_outcome e")
      (simp_all add: ParseUser_save_def ParseObject_save_def promise_then_def)
  obtain t1 res where ic: "isCurrent e user ?s1 = (t1, res)"
    by (cases "isCurrent e user ?s1")
  then have t1: "t1 = ?s2" by simp
  have fst_eq: "fst (ParseUser_save e user attrs options s) = ?s2 \<or>
                fst (ParseUser_save e user attrs options s) = ?s3"
    using resolved ic
    by (auto simp add: ParseUser_save_def ParseObject_save_def promise_then_def
        split: sum.splits)
  then show ?thesis
  proof
    assume "fst (ParseUser_save e user attrs options s) = ?s2"
    with evs1 s1 show ?thesis by simp
  next
    assume "fst (ParseUser_save e user attrs options s) = ?s3"
    with evs1 evs2 s1 show ?thesis by simp
  qed
qed

lemma signUp_object:
  assumes "snd (signUp e user attrs options s) = Resolved r"
  shows "object_after saved user st s (fst (signUp e user attrs options s)) =
           ObjectState_commitServerChanges [(''password'', JUndefined)] (saved st)"
proof -
  let ?s1 = "fst (ParseUser_save e user attrs options s)"
  let ?t1 = "record_call (FinishFetch user [(''password'', JUndefined)]) ?s1"
  let ?t2 = "fst (setCurrentUser e user ?t1)"
  obtain t p where sv: "ParseUser_save e user attrs options s = (t, p)"
    by (cases "ParseUser_save e user attrs options s")
  from assms sv obtain u where p: "p = Resolved u"
    by (cases p) (simp_all add: signUp_def promise_then_def Let_def split: if_splits)
  with sv have saved: "snd (ParseUser_save e user attrs options s) = Resolved u"
    by simp
  obtain evs1 where evs1:
    "trace ?s1 = trace s @ Save user attrs options # evs1"
    "\<forall>st. foldl (entity_call saved user) st evs1 = st"
    using ParseUser_save_events [OF saved, of saved] by blast
  obtain evs2 where evs2: "trace ?t2 = trace ?t1 @ evs2"
    "\<forall>st. foldl (entity_call saved user) st evs2 = st"
    using setCurrentUser_events [of e user ?t1 saved user] by blast
  have t1: "trace ?t1 = trace s @ Save user attrs options # evs1 @
              [FinishFetch user [(''password'', JUndefined)]]"
    using evs1 by (simp add: io_defs)
  have fst_eq: "fst (signUp e user attrs options s) = ?t1 \<or>
                fst (signUp e user attrs options s) = ?t2"
    using assms sv p
    by (auto simp add: signUp_def promise_then_def Let_def split: if_splits)
  then show ?thesis
  proof
    assume eq: "fst (signUp e user attrs options s) = ?t1"
    show ?thesis
      unfolding eq using object_after_events [OF t1, of saved user st] evs1(2) by simp
  next
    assume eq: "fst (signUp e user attrs options s) = ?t2"
    have "trace ?t2 = trace s @ (Save user attrs options # evs1 @
              [FinishFetch user [(''password'', JUndefined)]] @ evs2)"
      using evs2(1) t1 by simp
    from object_after_events [OF this, of saved user st] evs1(2) evs2(2)
    show ?thesis unfolding eq by simp
  qed
qed

lemma commit_password_undefined:
  "map_of attrs ''password'' = Some JUndefined \<Longrightarrow>
   serverData (ObjectState_commitServerChanges attrs st) ''password'' = None \<and>
   topOps (ObjectState_commitServerChanges attrs st) = topOps st \<and>
   olderOps (ObjectState_commitServerChanges attrs st) = olderOps st"
  by (simp add: ObjectState_commitServerChanges_def merge_attributes_def)

text \<open>
  Claim C10, as amended. After a successful \<open>signUp\<close> the state of the user is what
  \<open>save\<close> left with \<open>{password: undefined}\<close> committed to it: the confirmed
  attributes hold no password. After a successful \<open>logIn\<close> it is the state before
  the call with the pending operations on \<open>username\<close> and \<open>password\<close> removed from
  the newest pending set and the response committed with its password replaced by
  \<open>undefined\<close>: the confirmed attributes hold no password, the newest pending set
  holds no operation on \<open>username\<close> or \<open>password\<close>, and the older pending sets are
  as they were. In both cases a user whose other pending sets hold no operation on the
  password holds no password at all.
\<close>

theorem password_not_retained:
  "(snd (signUp e user attrs options s) = Resolved r \<longrightarrow>
      object_after saved user st s (fst (signUp e user attrs options s)) =
        ObjectState_commitServerChanges [(''password'', JUndefined)] (saved st) \<and>
      serverData (object_after saved user st s (fst (signUp e user attrs options s)))
        ''password'' = None \<and>
      (topOps (saved st) ''password'' = None \<and>
       \<not> list_ex (\<lambda>ops. ops ''password'' \<noteq> None) (olderOps (saved st)) \<longrightarrow>
         \<not> holds_attribute (object_after saved user st s (fst (signUp e user attrs options s)))
             ''password'')) \<and>
   (snd (logIn e user options s) = Resolved r \<longrightarrow>
      (\<exists>response. request_outcome e = Resolved response \<and>
         object_after saved user st s (fst (logIn e user options s)) =
           ObjectState_commitServerChanges (AList.update ''password'' JUndefined response)
             (ObjectState_setPendingOp ''password'' JUndefined
                (ObjectState_setPendingOp ''username'' JUndefined st))) \<and>
      serverData (object_after saved user st s (fst (logIn e user options s)))
        ''password'' = None \<and>
      topOps (object_after saved user st s (fst (logIn e user options s))) ''password'' = None \<and>
      topOps (object_after saved user st s (fst (logIn e user options s))) ''username'' = None \<and>
      olderOps (object_after saved user st s (fst (logIn e user options s))) = olderOps st \<and>
      (\<not> list_ex (\<lambda>ops. ops ''password'' \<noteq> None) (olderOps st) \<longrightarrow>
         \<not> holds_attribute (object_after saved user st s (fst (logIn e user options s)))
             ''password''))"
proof (intro conjI impI)
  assume ok: "snd (signUp e user attrs options s) = Resolved r"
  let ?st = "object_after saved user st s (fst (signUp e user attrs options s))"
  show eq: "?st = ObjectState_commitServerChanges [(''password'', JUndefined)] (saved st)"
    by (rule signUp_object [OF ok])
  have c: "serverData ?st ''password'' = None \<and> topOps ?st = topOps (saved st) \<and>
           olderOps ?st = olderOps (saved st)"
    unfolding eq by (rule commit_password_undefined) simp
  from c show "serverData ?st ''password'' = None" by simp
  assume "topOps (saved st) ''password'' = None \<and>
          \<not> list_ex (\<lambda>ops. ops ''password'' \<noteq> None) (olderOps (saved st))"
  with c show "\<not> holds_attribute ?st ''password''"
    by (simp add: holds_attribute_def)
next
  assume ok: "snd (logIn e user options s) = Resolved r"
  let ?st = "object_after saved user st s (fst (logIn e user options s))"
  from logIn_object [OF ok, of saved st]
  obtain response where response: "request_outcome e = Resolved response"
    and eq: "?st =
       ObjectState_commitServerChanges (AList.update ''password'' JUndefined response)
         (ObjectState_setPendingOp ''password'' JUndefined
            (ObjectState_setPendingOp ''username'' JUndefined st))"
    by blast
  from response eq
  show "\<exists>response. request_outcome e = Resolved response \<and>
         ?st = ObjectState_commitServerChanges (AList.update ''password'' JUndefined response)
             (ObjectState_setPendingOp ''password'' JUndefined
                (ObjectState_setPendingOp ''username'' JUndefined st))"
    by blast
  have m: "map_of (AList.update ''password'' JUndefined response) ''password'' = Some JUndefined"
    by (simp add: update_conv')
  note c = commit_password_undefined [OF m]
  show sd: "serverData ?st ''password'' = None"
    unfolding eq using c by simp
  show tp: "topOps ?st ''password'' = None"
    unfolding eq using c by (simp add: ObjectState_setPendingOp_def)
  show "topOps ?st ''username'' = None"
    unfolding eq using c by (simp add: ObjectState_setPendingOp_def)
  show old: "olderOps ?st = olderOps st"
    unfolding eq using c by (simp add: ObjectState_setPendingOp_def)
  assume "\<not> list_ex (\<lambda>ops. ops ''password'' \<noteq> None) (olderOps st)"
  with sd tp old show "\<not> holds_attribute ?st ''password''"
    by (simp add: holds_attribute_def)
qed

text \<open>
  A user with a password among its confirmed attributes and a password operation in its
  newest pending set logs in; a user with a password operation pending signs up on a
  synchronous store, with a \<open>save\<close> that confirms the password it sent. The store
  and the network answer at once.
\<close>

theorem password_not_retained_witness:
  "snd (logIn (sample_env True (Resolved ())
                 (Resolved [(''objectId'', JStr ''u1''), (''password'', JStr ''secret'')]))
          0 [] (sample_state None)) = Resolved 0 \<and>
   \<not> holds_attribute
       (object_after id 0
          \<lparr>serverData = [''password'' \<mapsto> JStr ''secret''], olderOps = [],
           topOps = [''password'' \<mapsto> JStr ''set secret'']\<rparr>
          (sample_state None)
          (fst (logIn (sample_env True (Resolved ())
                         (Resolved [(''objectId'', JStr ''u1''), (''password'', JStr ''secret'')]))
                  0 [] (sample_state None))))
       ''password'' \<and>
   snd (signUp (sample_env False (Resolved ()) Pending) 0 None [] (sample_state None)) =
     Resolved 0 \<and>
   \<not> holds_attribute
       (object_after
          (\<lambda>st. \<lparr>serverData = (serverData st)(''password'' \<mapsto> JStr ''secret''),
                 olderOps = [], topOps = Map.empty\<rparr>)
          0
          \<lparr>serverData = Map.empty, olderOps = [],
           topOps = [''password'' \<mapsto> JStr ''set secret'']\<rparr>
          (sample_state None)
          (fst (signUp (sample_env False (Resolved ()) Pending) 0 None [] (sample_state None))))
       ''password''"
proof -
  let ?e = "sample_env True (Resolved ())
              (Resolved [(''objectId'', JStr ''u1''), (''password'', JStr ''secret'')])"
  let ?e' = "sample_env False (Resolved ()) Pending"
  let ?st = "\<lparr>serverData = [''password'' \<mapsto> JStr ''secret''], olderOps = [],
              topOps = [''password'' \<mapsto> JStr ''set secret'']\<rparr>"
  let ?st' = "\<lparr>serverData = Map.empty, olderOps = [],
               topOps = [''password'' \<mapsto> JStr ''set secret'']\<rparr>"
  let ?saved = "\<lambda>st. \<lparr>serverData = (serverData st)(''password'' \<mapsto> JStr ''secret''),
                       olderOps = [], topOps = Map.empty\<rparr>"
  have li: "snd (logIn ?e 0 [] (sample_state None)) = Resolved 0"
    by (simp add: logIn_def setCurrentUser_def updateUserOnDisk_def promise_then_def
        io_defs cache_defs sample_defs Let_def)
  have su: "snd (signUp ?e' 0 None [] (sample_state None)) = Resolved 0"
    by (simp add: signUp_def ParseUser_save_def isCurrent_def ParseUser_current_def
        currentUser_def setCurrentUser_def updateUserOnDisk_def js_or_def promise_then_def
        no_userData_def io_defs cache_defs sample_defs Let_def)
  have old: "\<not> list_ex (\<lambda>ops. ops ''password'' \<noteq> None) (olderOps ?st)"
    by simp
  have old': "topOps (?saved ?st') ''password'' = None \<and>
      \<not> list_ex (\<lambda>ops. ops ''password'' \<noteq> None) (olderOps (?saved ?st'))"
    by simp
  note login = password_not_retained [THEN conjunct2, rule_format, OF li,
      of id ?st, THEN conjunct2, THEN conjunct2, THEN conjunct2, THEN conjunct2,
      THEN conjunct2, rule_format, OF old]
  note signup = password_not_retained [THEN conjunct1, rule_format, OF su,
      of ?saved ?st', THEN conjunct2, THEN conjunct2, rule_format, OF old']
  from li su login signup show ?thesis by (intro conjI)
qed

text \<open>
  Claim C10 as stated fails for a user that logs in while an older pending set, the set
  of a save still in flight, holds an operation on the password: \<open>logIn\<close> clears the
  newest pending set only, and the user still holds a password after the login has
  succeeded.
\<close>

theorem password_not_retained_counterexample:
  "snd (logIn (sample_env True (Resolved ())
                 (Resolved [(''objectId'', JStr ''u1''), (''password'', JStr ''secret'')]))
          0 [] (sample_state None)) = Resolved 0 \<and>
   holds_attribute
     (object_after id 0
        \<lparr>serverData = Map.empty, olderOps = [[''password'' \<mapsto> JStr ''set secret'']],
         topOps = Map.empty\<rparr>
        (sample_state None)
        (fst (logIn (sample_env True (Resolved ())
                       (Resolved [(''objectId'', JStr ''u1''), (''password'', JStr ''secret'')]))
                0 [] (sample_state None))))
     ''password''"
  by (simp add: holds_attribute_def object_after_def ObjectState_commitServerChanges_def
      ObjectState_setPendingOp_def logIn_def setCurrentUser_def updateUserOnDisk_def
      promise_then_def io_defs cache_defs sample_defs Let_def)


end
